theory Spec2Isabelle
  imports Complex_Main
begin

section \<open>JavaScript values\<close>

text \<open>
  The order-book callback of \<^verbatim>\<open>src/App.tsx\<close> receives a value typed \<^verbatim>\<open>any\<close>, so the
  model works on untyped JavaScript data.  A number is an IEEE double: \<open>NaN\<close>, one of
  the two infinities, or a finite double, which the model takes as the rational it
  denotes (the two zeros are one).
\<close>

datatype jsnum = NaN | Fin rat | PosInf | NegInf

datatype jsval =
    Undefined
  | Null
  | Bool bool
  | Number jsnum
  | Str string
  | Arr "jsval list"
  | Obj "(string \<times> jsval) list"

text \<open>What a \<^verbatim>\<open>throw\<close> carries: the runtime's own errors and \<^verbatim>\<open>new Error(msg)\<close>.\<close>

datatype error = TypeError | RangeError | Error string

text \<open>Truthiness, as \<^verbatim>\<open>if (v)\<close>, \<^verbatim>\<open>!v\<close>, \<^verbatim>\<open>a || b\<close> and \<^verbatim>\<open>a && b\<close> test it.\<close>

fun truthy :: "jsval \<Rightarrow> bool" where
  "truthy Undefined = False"
| "truthy Null = False"
| "truthy (Bool b) = b"
| "truthy (Number NaN) = False"
| "truthy (Number (Fin r)) = (r \<noteq> 0)"
| "truthy (Number PosInf) = True"
| "truthy (Number NegInf) = True"
| "truthy (Str s) = (s \<noteq> [])"
| "truthy (Arr xs) = True"
| "truthy (Obj fs) = True"

text \<open>
  \<^verbatim>\<open>v?.k\<close>, and \<^verbatim>\<open>v.k\<close> on a value known not to be \<^verbatim>\<open>null\<close> or \<^verbatim>\<open>undefined\<close>, for the
  property names the source reads (\<^verbatim>\<open>orderbook\<close>, \<^verbatim>\<open>buys\<close>, \<^verbatim>\<open>sells\<close>, \<^verbatim>\<open>price\<close>,
  \<^verbatim>\<open>quantity\<close>, \<^verbatim>\<open>timestamp\<close>): only a plain object carries one of them, every other
  value yields \<^verbatim>\<open>undefined\<close>.
\<close>

fun get :: "jsval \<Rightarrow> string \<Rightarrow> jsval" where
  "get (Obj fs) k = (case map_of fs k of Some v \<Rightarrow> v | None \<Rightarrow> Undefined)"
| "get v k = Undefined"

text \<open>
  Of the runtime's arithmetic the source uses one addition and one division by 2 (line
  326).  IEEE arithmetic returns the exact result rounded to a double; \<open>toDouble\<close>
  stands for that rounding (to the nearest double, ties to even, to an infinity on
  overflow) and is a parameter of the model, so that nothing below depends on how a
  sum is rounded.
\<close>

fun jadd :: "(rat \<Rightarrow> jsnum) \<Rightarrow> jsnum \<Rightarrow> jsnum \<Rightarrow> jsnum" where
  "jadd toDouble (Fin a) (Fin b) = toDouble (a + b)"
| "jadd toDouble NaN y = NaN"
| "jadd toDouble x NaN = NaN"
| "jadd toDouble PosInf NegInf = NaN"
| "jadd toDouble NegInf PosInf = NaN"
| "jadd toDouble PosInf y = PosInf"
| "jadd toDouble x PosInf = PosInf"
| "jadd toDouble NegInf y = NegInf"
| "jadd toDouble x NegInf = NegInf"

text \<open>\<^verbatim>\<open>x / 2\<close>.\<close>

fun jhalf :: "(rat \<Rightarrow> jsnum) \<Rightarrow> jsnum \<Rightarrow> jsnum" where
  "jhalf toDouble (Fin a) = toDouble (a / 2)"
| "jhalf toDouble x = x"

text \<open>
  Comparisons are exact.  \<open>jle x b\<close> is \<^verbatim>\<open>x <= b\<close> for a finite \<open>b\<close> and \<open>jge x y\<close> is
  \<^verbatim>\<open>x >= y\<close>; every comparison with \<open>NaN\<close> is false.
\<close>

fun jle :: "jsnum \<Rightarrow> rat \<Rightarrow> bool" where
  "jle (Fin a) b = (a \<le> b)"
| "jle NegInf b = True"
| "jle x b = False"

fun jge :: "jsnum \<Rightarrow> jsnum \<Rightarrow> bool" where
  "jge NaN y = False"
| "jge x NaN = False"
| "jge (Fin a) (Fin b) = (a \<ge> b)"
| "jge PosInf y = True"
| "jge x NegInf = True"
| "jge x y = False"

fun isNaN :: "jsnum \<Rightarrow> bool" where
  "isNaN NaN = True"
| "isNaN x = False"

section \<open>The order-book synchronizer\<close>

record OrderBookEntry =
  price :: jsval
  quantity :: jsval
  timestamp :: jsval

text \<open>
  The React state that \<^verbatim>\<open>processOrderbookData\<close> writes: \<^verbatim>\<open>buyOrders\<close>, \<^verbatim>\<open>sellOrders\<close>,
  \<^verbatim>\<open>currentPrice\<close> and \<^verbatim>\<open>orderbookLoading\<close>, with the initial values of their
  \<^verbatim>\<open>useState\<close> calls.
\<close>

record book =
  buyOrders :: "OrderBookEntry list"
  sellOrders :: "OrderBookEntry list"
  currentPrice :: jsnum
  orderbookLoading :: bool

definition initialBook :: book where
  "initialBook = \<lparr>buyOrders = [], sellOrders = [], currentPrice = Fin 0, orderbookLoading = True\<rparr>"

text \<open>
  Lines 272-288: the choice of the book content among the shapes of the incoming value.
  The source writes it inline; the branches are in the source's order.
\<close>

definition selectOrderbook :: "jsval \<Rightarrow> jsval" where
  "selectOrderbook orderbooks =
     (if truthy (get orderbooks ''orderbook'') then get orderbooks ''orderbook''
      else if (case orderbooks of
                 Arr (x # xs) \<Rightarrow> truthy (get x ''orderbook'')
               | _ \<Rightarrow> False)
        then (case orderbooks of Arr (x # xs) \<Rightarrow> get x ''orderbook'' | _ \<Rightarrow> Undefined)
      else if truthy (get orderbooks ''buys'') \<or> truthy (get orderbooks ''sells'') then orderbooks
      else orderbooks)"

text \<open>
  The object that the arrow function of \<^verbatim>\<open>.map\<close> returns (lines 296-300); \<open>now\<close> is the
  value of \<^verbatim>\<open>Date.now()\<close>.
\<close>

definition entry :: "rat \<Rightarrow> jsval \<Rightarrow> OrderBookEntry" where
  "entry now order =
     \<lparr>price = get order ''price'',
      quantity = get order ''quantity'',
      timestamp = (if truthy (get order ''timestamp'') then get order ''timestamp''
                   else Number (Fin now))\<rparr>"

text \<open>
  The arrow function itself (lines 295-301): reading \<^verbatim>\<open>order.price\<close> of \<^verbatim>\<open>undefined\<close> or
  \<^verbatim>\<open>null\<close> throws a TypeError.
\<close>

fun toEntry :: "rat \<Rightarrow> jsval \<Rightarrow> error + OrderBookEntry" where
  "toEntry now Undefined = Inl TypeError"
| "toEntry now Null = Inl TypeError"
| "toEntry now order = Inr (entry now order)"

fun mapE :: "('a \<Rightarrow> error + 'b) \<Rightarrow> 'a list \<Rightarrow> error + 'b list" where
  "mapE f [] = Inr []"
| "mapE f (x # xs) =
     (case f x of
        Inl e \<Rightarrow> Inl e
      | Inr y \<Rightarrow> (case mapE f xs of Inl e \<Rightarrow> Inl e | Inr ys \<Rightarrow> Inr (y # ys)))"

text \<open>
  \<^verbatim>\<open>side ? side.slice(0, 10).map(...) : []\<close> (lines 292-315).  Only an array has both
  \<^verbatim>\<open>slice\<close> and \<^verbatim>\<open>map\<close>; on any other truthy value one of the two calls throws a TypeError.
\<close>

definition processSide :: "rat \<Rightarrow> jsval \<Rightarrow> error + OrderBookEntry list" where
  "processSide now side =
     (if truthy side
      then (case side of Arr xs \<Rightarrow> mapE (toEntry now) (take 10 xs) | _ \<Rightarrow> Inl TypeError)
      else Inr [])"

text \<open>
  Lines 323-339: the price derived from the processed sides, over the previous value
  \<open>cur\<close> of \<^verbatim>\<open>currentPrice\<close>.  There is no \<^verbatim>\<open>else\<close> after the third test.
\<close>

fun derivePrice ::
  "(rat \<Rightarrow> jsnum) \<Rightarrow> (jsval \<Rightarrow> jsnum) \<Rightarrow> jsnum \<Rightarrow>
   OrderBookEntry list \<Rightarrow> OrderBookEntry list \<Rightarrow> jsnum" where
  "derivePrice toDouble parseFloat cur (b # bs) (a # as) =
     jhalf toDouble (jadd toDouble (parseFloat (price b)) (parseFloat (price a)))"
| "derivePrice toDouble parseFloat cur (b # bs) [] = parseFloat (price b)"
| "derivePrice toDouble parseFloat cur [] (a # as) = parseFloat (price a)"
| "derivePrice toDouble parseFloat cur [] [] = cur"

text \<open>
  \<^verbatim>\<open>processOrderbookData\<close> (lines 270-355).  \<open>parseFloat\<close> is the runtime's function of
  that name.  An exception thrown in the \<^verbatim>\<open>try\<close> block is raised before the first
  setter runs, and the \<^verbatim>\<open>catch\<close> block only clears the loading flag.
\<close>

definition processOrderbookData ::
  "(rat \<Rightarrow> jsnum) \<Rightarrow> (jsval \<Rightarrow> jsnum) \<Rightarrow> rat \<Rightarrow> book \<Rightarrow> jsval \<Rightarrow> book" where
  "processOrderbookData toDouble parseFloat now s orderbooks =
     (let orderbook = selectOrderbook orderbooks in
      if truthy orderbook \<and> (truthy (get orderbook ''buys'') \<or> truthy (get orderbook ''sells''))
      then (case processSide now (get orderbook ''buys'') of
              Inl e \<Rightarrow> s\<lparr>orderbookLoading := False\<rparr>
            | Inr processedBuyOrders \<Rightarrow>
               (case processSide now (get orderbook ''sells'') of
                  Inl e \<Rightarrow> s\<lparr>orderbookLoading := False\<rparr>
                | Inr processedSellOrders \<Rightarrow>
                    s\<lparr>buyOrders := processedBuyOrders,
                      sellOrders := processedSellOrders,
                      orderbookLoading := False,
                      currentPrice :=
                        derivePrice toDouble parseFloat (currentPrice s)
                          processedBuyOrders processedSellOrders\<rparr>))
      else s\<lparr>orderbookLoading := False\<rparr>)"

text \<open>
  A run of the synchronizer: the updates of the one-shot fetch and of the stream, each
  with its own \<^verbatim>\<open>Date.now()\<close>, in the order they arrive.
\<close>

fun run ::
  "(rat \<Rightarrow> jsnum) \<Rightarrow> (jsval \<Rightarrow> jsnum) \<Rightarrow> book \<Rightarrow> (rat \<times> jsval) list \<Rightarrow> book" where
  "run toDouble parseFloat s [] = s"
| "run toDouble parseFloat s ((now, u) # us) =
     run toDouble parseFloat (processOrderbookData toDouble parseFloat now s u) us"

text \<open>
  The orderings the specification asks of the retained levels, and the same orderings of
  an incoming array of levels: bids from the highest price down, asks from the lowest
  price up, prices compared as numbers.
\<close>

definition descendingByPrice :: "(jsval \<Rightarrow> jsnum) \<Rightarrow> OrderBookEntry list \<Rightarrow> bool" where
  "descendingByPrice parseFloat es = sorted_wrt (\<lambda>x y. jge (parseFloat (price x)) (parseFloat (price y))) es"

definition ascendingByPrice :: "(jsval \<Rightarrow> jsnum) \<Rightarrow> OrderBookEntry list \<Rightarrow> bool" where
  "ascendingByPrice parseFloat es = sorted_wrt (\<lambda>x y. jge (parseFloat (price y)) (parseFloat (price x))) es"

definition incomingDescending :: "(jsval \<Rightarrow> jsnum) \<Rightarrow> jsval list \<Rightarrow> bool" where
  "incomingDescending parseFloat xs =
     sorted_wrt (\<lambda>x y. jge (parseFloat (get x ''price'')) (parseFloat (get y ''price''))) xs"

definition incomingAscending :: "(jsval \<Rightarrow> jsnum) \<Rightarrow> jsval list \<Rightarrow> bool" where
  "incomingAscending parseFloat xs =
     sorted_wrt (\<lambda>x y. jge (parseFloat (get y ''price'')) (parseFloat (get x ''price''))) xs"

section \<open>Numbers as text\<close>

text \<open>The decimal digits of a natural number.\<close>

definition digit :: "nat \<Rightarrow> char" where
  "digit d = ''0123456789'' ! d"

function decimal :: "nat \<Rightarrow> string" where
  "decimal n = (if n < 10 then [digit n] else decimal (n div 10) @ [digit (n mod 10)])"
  by pat_completeness auto
termination
  by (relation "measure id") auto

declare decimal.simps [simp del]

text \<open>
  \<open>numToString\<close> stands for the runtime's conversion of a number to text (the shortest
  digits that read back as the same double, exponent notation, \<^verbatim>\<open>NaN\<close>,
  \<^verbatim>\<open>Infinity\<close>); it is a parameter of the model.

  \<^verbatim>\<open>Number.prototype.toFixed\<close>, after the language standard: a RangeError for more than
  100 digits, the plain conversion for \<open>NaN\<close>, for the infinities and from \<open>10\<^sup>2\<^sup>1\<close> on,
  and otherwise the
  integer \<open>n\<close> nearest to \<open>x * 10\<^sup>f\<close> (the larger one of two), padded with zeros to
  \<open>f + 1\<close> digits and split before its last \<open>f\<close> digits.
\<close>

definition toFixed :: "(jsnum \<Rightarrow> string) \<Rightarrow> jsnum \<Rightarrow> nat \<Rightarrow> error + string" where
  "toFixed numToString x f =
     (if f > 100 then Inl RangeError
      else case x of
        NaN \<Rightarrow> Inr (numToString NaN)
      | PosInf \<Rightarrow> Inr (numToString PosInf)
      | NegInf \<Rightarrow> Inr (numToString NegInf)
      | Fin r \<Rightarrow>
          (let s = (if r < 0 then ''-'' else []) in
           if \<bar>r\<bar> \<ge> 10 ^ 21 then Inr (s @ numToString (Fin \<bar>r\<bar>))
           else
             (let n = nat \<lfloor>\<bar>r\<bar> * 10 ^ f + 1 / 2\<rfloor>;
                  m = decimal n;
                  m = (if f \<noteq> 0
                       then (let m = (if length m \<le> f
                                      then replicate (f + 1 - length m) CHR ''0'' @ m
                                      else m);
                                 k = length m
                             in take (k - f) m @ ''.'' @ drop (k - f) m)
                       else m)
              in Inr (s @ m))))"

section \<open>The small-value formatter\<close>

text \<open>
  The formatter's result holds the subscript digits U+2080 to U+2089, which are not
  characters of \<^typ>\<open>char\<close>: a character of the result is a \<^typ>\<open>char\<close> or a subscript
  digit.
\<close>

datatype jchar = Ch char | Sub nat

definition subscripts :: "jchar list" where
  "subscripts = [Sub 0, Sub 1, Sub 2, Sub 3, Sub 4, Sub 5, Sub 6, Sub 7, Sub 8, Sub 9]"

text \<open>
  \<^verbatim>\<open>subscripts[parseInt(d)]\<close> inside \<^verbatim>\<open>.map(...).join('')\<close>: a character that is no digit
  indexes with \<open>NaN\<close>, and \<^verbatim>\<open>join\<close> writes the resulting \<^verbatim>\<open>undefined\<close> as the empty
  text.
\<close>

definition subscriptOf :: "char \<Rightarrow> jchar list" where
  "subscriptOf d =
     (let i = of_char d - (48 :: nat)
      in if (48 :: nat) \<le> of_char d \<and> i < length subscripts then [subscripts ! i] else [])"

text \<open>
  \<^verbatim>\<open>s.replace(/\.?0+$/, '')\<close>: the leftmost match is the whole run of zeros that ends
  the text, with the dot before it when there is one.
\<close>

definition stripTrailingZeros :: "string \<Rightarrow> string" where
  "stripTrailingZeros s =
     (let t = rev (dropWhile (\<lambda>c. c = CHR ''0'') (rev s))
      in if t = s then s
         else if t \<noteq> [] \<and> last t = CHR ''.'' then butlast t
         else t)"

text \<open>\<^verbatim>\<open>s.match(/^0\.0+/)\<close>: the matched text \<^verbatim>\<open>match[0]\<close>, or \<open>None\<close> for \<^verbatim>\<open>null\<close>.\<close>

fun matchLeadingZeros :: "string \<Rightarrow> string option" where
  "matchLeadingZeros (a # b # rest) =
     (if a = CHR ''0'' \<and> b = CHR ''.'' \<and> takeWhile (\<lambda>c. c = CHR ''0'') rest \<noteq> []
      then Some (a # b # takeWhile (\<lambda>c. c = CHR ''0'') rest)
      else None)"
| "matchLeadingZeros s = None"

text \<open>
  \<^verbatim>\<open>formatSmallPrice\<close> (lines 98-132); \<open>p\<close> is its argument \<^verbatim>\<open>price\<close>.  The literal
  \<^verbatim>\<open>0.0001\<close> of the source is the double nearest to \<open>10\<^sup>-\<^sup>4\<close>, which is not below it,
  so no double lies between the two and the comparison with the rational \<open>1 / 10000\<close>
  decides every double as the source does.
\<close>

definition formatSmallPrice ::
  "(jsnum \<Rightarrow> string) \<Rightarrow> jsnum \<Rightarrow> jchar list \<Rightarrow> error + jchar list" where
  "formatSmallPrice numToString p quoteSymbol =
     (if p = Fin 0 then Inr (quoteSymbol @ map Ch ''0.00'')
      else if jge p (Fin (1 / 10000)) then map_sum id (map Ch) (toFixed numToString p 4)
      else
        (case toFixed numToString p 20 of
           Inl e \<Rightarrow> Inl e
         | Inr fixed \<Rightarrow>
            (let priceStr = stripTrailingZeros fixed in
             case matchLeadingZeros priceStr of
               None \<Rightarrow> Inr (map Ch (numToString p))
             | Some match0 \<Rightarrow>
                (let leadingZeros = length match0 - 2 in
                 if leadingZeros > 9
                 then
                   (let adjustedZeros = min leadingZeros 9;
                        startPos = length match0 + (leadingZeros - adjustedZeros);
                        significantDigits = take 4 (drop startPos priceStr);
                        zeroCount = concat (map subscriptOf (decimal adjustedZeros))
                    in Inr (map Ch ''0.0'' @ zeroCount @ map Ch significantDigits))
                 else
                   (let significantDigits = take 4 (drop (length match0) priceStr);
                        zeroCount = concat (map subscriptOf (decimal leadingZeros))
                    in Inr (map Ch ''0.0'' @ zeroCount @ map Ch significantDigits))))))"

section \<open>The order submission pipeline\<close>

datatype OrderSide = Buy | Sell

datatype OrderType = Market | Limit

text \<open>
  The fields of a \<^verbatim>\<open>TradingPair\<close> that \<^verbatim>\<open>handlePlaceOrder\<close> reads;
  \<open>baseDecimals\<close> is \<^verbatim>\<open>baseToken?.decimals\<close> and \<open>quoteDecimals\<close> is
  \<^verbatim>\<open>quoteToken?.decimals\<close>.
\<close>

record TradingPair =
  marketId :: string
  ticker :: string
  baseDecimals :: "nat option"
  quoteDecimals :: "nat option"
  minPriceTickSize :: rat
  minQuantityTickSize :: rat

text \<open>
  The React state that \<^verbatim>\<open>handlePlaceOrder\<close> reads.  \<open>priceInput\<close> and \<open>quantityInput\<close>
  are the state variables \<^verbatim>\<open>price\<close> and \<^verbatim>\<open>quantity\<close>, the texts of the two input
  fields (an order-book entry has fields of the same names); \<open>marketPrice\<close> is the
  state variable \<^verbatim>\<open>currentPrice\<close> that the synchronizer writes.
\<close>

record app =
  isConnected :: bool
  isPlacingOrder :: bool
  injectiveAddresses :: "string list"
  selectedPair :: string
  tradingPairs :: "TradingPair list"
  orderSide :: OrderSide
  orderType :: OrderType
  priceInput :: string
  quantityInput :: string
  marketPrice :: jsnum

text \<open>\<^verbatim>\<open>getCurrentPairData\<close> (lines 406-411): \<open>None\<close> is \<^verbatim>\<open>undefined\<close>.\<close>

definition getCurrentPairData :: "TradingPair list \<Rightarrow> string \<Rightarrow> TradingPair option" where
  "getCurrentPairData pairs selected =
     (case find (\<lambda>pair. ticker pair = selected) pairs of
        Some pair \<Rightarrow> Some pair
      | None \<Rightarrow> (case pairs of [] \<Rightarrow> None | pair # rest \<Rightarrow> Some pair))"

text \<open>
  Lines 645-647.  \<^verbatim>\<open>subaccountIndex\<close> is the constant 0 of the source, which the runtime
  writes as the text \<^verbatim>\<open>0\<close> when it appends it to the 23 zeros.
\<close>

definition subaccountId :: "string \<Rightarrow> string" where
  "subaccountId ethereumAddress =
     (let subaccountIndex = 0;
          suffix = replicate 23 CHR ''0'' @ decimal subaccountIndex
      in ethereumAddress @ suffix)"

text \<open>
  What one call of \<^verbatim>\<open>handlePlaceOrder\<close> comes to, up to the scaling step: the silent
  \<^verbatim>\<open>return\<close> of line 579, a validation message set before the \<^verbatim>\<open>try\<close> block, an
  exception caught at line 862, or the call of \<^verbatim>\<open>spotPriceToChainPriceToFixed\<close> and
  \<^verbatim>\<open>spotQuantityToChainQuantityToFixed\<close> on a price and a quantity.  Signing and
  broadcast, which follow, are not modelled.
\<close>

record conversion =
  subaccount :: string
  orderTypeValue :: nat
  priceValue :: jsnum
  quantityValue :: jsnum
  priceTensMultiplier :: int
  quantityTensMultiplier :: int

datatype outcome =
    Returned
  | Rejected string
  | Failed error
  | Scaling conversion

text \<open>
  The \<^verbatim>\<open>try\<close> block of \<^verbatim>\<open>handlePlaceOrder\<close> up to the conversions (lines 605-734).
  \<open>getSpotMarketTensMultiplier\<close> and \<open>getEthereumAddress\<close> are the SDK's functions of
  these names, which may throw.
\<close>

definition createOrder ::
  "(jsval \<Rightarrow> jsnum) \<Rightarrow> (jsnum \<Rightarrow> string) \<Rightarrow>
   (nat \<Rightarrow> nat \<Rightarrow> rat \<Rightarrow> rat \<Rightarrow> error + int \<times> int) \<Rightarrow> (string \<Rightarrow> error + string) \<Rightarrow>
   app \<Rightarrow> string \<Rightarrow> TradingPair \<Rightarrow> outcome" where
  "createOrder parseFloat numToString getSpotMarketTensMultiplier getEthereumAddress
       a injectiveAddress currentMarket =
     (let baseDec = (case baseDecimals currentMarket of
                       Some d \<Rightarrow> if d \<noteq> 0 then d else 18 | None \<Rightarrow> 18);
          quoteDec = (case quoteDecimals currentMarket of
                        Some d \<Rightarrow> if d \<noteq> 0 then d else 6 | None \<Rightarrow> 6)
      in case getSpotMarketTensMultiplier baseDec quoteDec
                (minPriceTickSize currentMarket) (minQuantityTickSize currentMarket) of
           Inl e \<Rightarrow> Failed e
         | Inr (priceTens, quantityTens) \<Rightarrow>
            (case getEthereumAddress injectiveAddress of
               Inl e \<Rightarrow> Failed e
             | Inr ethereumAddress \<Rightarrow>
                (let sub = subaccountId ethereumAddress;
                     sideValue = (if orderSide a = Buy then 1 else 2)
                 in if orderType a = Limit
                    then Scaling \<lparr>subaccount = sub, orderTypeValue = sideValue,
                           priceValue = parseFloat (Str (priceInput a)),
                           quantityValue = parseFloat (Str (quantityInput a)),
                           priceTensMultiplier = priceTens,
                           quantityTensMultiplier = quantityTens\<rparr>
                    else if jle (marketPrice a) 0 \<or> isNaN (marketPrice a)
                    then Failed (Error (''Invalid market price: '' @ numToString (marketPrice a)
                                        @ ''. Orderbook may not be loaded.''))
                    else Scaling \<lparr>subaccount = sub, orderTypeValue = sideValue,
                           priceValue = marketPrice a,
                           quantityValue = parseFloat (Str (quantityInput a)),
                           priceTensMultiplier = priceTens,
                           quantityTensMultiplier = quantityTens\<rparr>)))"

text \<open>
  \<^verbatim>\<open>handlePlaceOrder\<close> (lines 578-870), with the checks in the source's order.  The
  last case distinction names \<^verbatim>\<open>injectiveAddresses[0]\<close>, which exists after the wallet
  check; its first case is never reached.
\<close>

definition handlePlaceOrder ::
  "(jsval \<Rightarrow> jsnum) \<Rightarrow> (jsnum \<Rightarrow> string) \<Rightarrow>
   (nat \<Rightarrow> nat \<Rightarrow> rat \<Rightarrow> rat \<Rightarrow> error + int \<times> int) \<Rightarrow> (string \<Rightarrow> error + string) \<Rightarrow>
   app \<Rightarrow> outcome" where
  "handlePlaceOrder parseFloat numToString getSpotMarketTensMultiplier getEthereumAddress a =
     (if quantityInput a = [] then Returned
      else if \<not> isConnected a \<or> length (injectiveAddresses a) = 0
      then Rejected ''Please connect your wallet first''
      else case getCurrentPairData (tradingPairs a) (selectedPair a) of
        None \<Rightarrow> Rejected ''Please select a market first''
      | Some currentMarket \<Rightarrow>
          if orderType a = Limit \<and>
             (priceInput a = [] \<or> jle (parseFloat (Str (priceInput a))) 0)
          then Rejected ''Please enter a valid price for limit order''
          else if orderType a \<noteq> Limit \<and> jle (marketPrice a) 0
          then Rejected
            ''Market price not available yet. Please wait for orderbook to load.''
          else (case injectiveAddresses a of
                  [] \<Rightarrow> Rejected ''Please connect your wallet first''
                | injectiveAddress # rest \<Rightarrow>
                    createOrder parseFloat numToString getSpotMarketTensMultiplier
                      getEthereumAddress a injectiveAddress currentMarket))"

text \<open>
  The only caller of \<^verbatim>\<open>handlePlaceOrder\<close> is the click handler of the order button,
  and this is the button's \<^verbatim>\<open>disabled\<close> attribute (lines 1272-1277): a submission
  attempt reaches \<^verbatim>\<open>handlePlaceOrder\<close> only in a state where it is false.
\<close>

definition placeOrderDisabled :: "app \<Rightarrow> bool" where
  "placeOrderDisabled a =
     (isPlacingOrder a \<or> quantityInput a = [] \<or>
      (orderType a = Limit \<and> priceInput a = []) \<or> \<not> isConnected a)"

section \<open>The stream subscription of the synchronizer\<close>

text \<open>
  The effect of lines 257-404 and the stream service it talks to.  \<open>streamRef\<close> is
  \<^verbatim>\<open>streamRef.current\<close>, \<open>None\<close> for \<^verbatim>\<open>null\<close>.  \<open>subscriptions\<close> is the state of the
  stream service (the order-book source of the specification, with
  \<^verbatim>\<open>subscribe(marketId, onUpdate) -> Handle\<close> and \<^verbatim>\<open>unsubscribe(Handle)\<close>): the handles
  it has given out and not been asked to close, each with its market.  The service
  calls the callback of a subscription for as long as it is in this list.
\<close>

record sync =
  streamRef :: "nat option"
  subscriptions :: "(nat \<times> string) list"
  shown :: book

definition initialSync :: sync where
  "initialSync = \<lparr>streamRef = None, subscriptions = [], shown = initialBook\<rparr>"

text \<open>
  The body of the effect after the snapshot fetch is issued (lines 267 and 375-395):
  \<^verbatim>\<open>streamFn\<close> opens a subscription for the market and its handle is stored; handles
  are numbered in the order the service gives them out.
  \<open>started\<close> is false when \<^verbatim>\<open>streamFn\<close> throws, which the source catches.
\<close>

definition startStream :: "string \<Rightarrow> bool \<Rightarrow> sync \<Rightarrow> sync" where
  "startStream market started s =
     (let s = s\<lparr>shown := (shown s)\<lparr>orderbookLoading := True\<rparr>\<rparr> in
      if started
      then (let h = length (subscriptions s)
            in s\<lparr>streamRef := Some h, subscriptions := subscriptions s @ [(h, market)]\<rparr>)
      else s)"

text \<open>
  The cleanup function of the effect (lines 398-403): it clears the reference and makes
  no call on the handle.
\<close>

definition cleanup :: "sync \<Rightarrow> sync" where
  "cleanup s = (if streamRef s \<noteq> None then s\<lparr>streamRef := None\<rparr> else s)"

text \<open>
  A change of the selected market: React runs the cleanup of the previous effect, then
  the effect for the new market.
\<close>

definition selectMarket :: "string \<Rightarrow> sync \<Rightarrow> sync" where
  "selectMarket market s = startStream market True (cleanup s)"

text \<open>
  The stream service delivers an update on a handle: the callback of lines 380-383
  runs when the subscription is open.
\<close>

definition deliver ::
  "(rat \<Rightarrow> jsnum) \<Rightarrow> (jsval \<Rightarrow> jsnum) \<Rightarrow> rat \<Rightarrow> nat \<Rightarrow> jsval \<Rightarrow> sync \<Rightarrow> sync" where
  "deliver toDouble parseFloat now h u s =
     (if h \<in> fst ` set (subscriptions s)
      then s\<lparr>shown := processOrderbookData toDouble parseFloat now (shown s) u\<rparr>
      else s)"

section \<open>A parser for the examples\<close>

text \<open>
  The examples below need a concrete \<open>parseFloat\<close>: this one reads a text of decimal
  digits as the runtime does, and gives \<open>NaN\<close> on anything else.
\<close>

definition digitValue :: "char \<Rightarrow> nat" where
  "digitValue c = of_char c - 48"

definition isDigit :: "char \<Rightarrow> bool" where
  "isDigit c = ((48 :: nat) \<le> of_char c \<and> of_char c \<le> (57 :: nat))"

definition digitsValue :: "string \<Rightarrow> nat" where
  "digitsValue s = foldl (\<lambda>n c. 10 * n + digitValue c) 0 s"

definition parseDigits :: "jsval \<Rightarrow> jsnum" where
  "parseDigits v =
     (case v of
        Str s \<Rightarrow> (if s \<noteq> [] \<and> list_all isDigit s then Fin (of_nat (digitsValue s)) else NaN)
      | _ \<Rightarrow> NaN)"

section \<open>Notions for the statements\<close>

text \<open>
  Two notions for stating what the formatter returns.  \<open>significant n\<close> is the decimal
  text of \<open>n\<close> without the zeros that end it.  \<open>compressedForm\<close> is the compressed form
  of the specification: the prefix \<^verbatim>\<open>0.0\<close>, one subscript digit of at most 9 and at
  most 4 decimal digits.
\<close>

definition significant :: "nat \<Rightarrow> string" where
  "significant n = rev (dropWhile (\<lambda>c. c = CHR ''0'') (rev (decimal n)))"

definition compressedForm :: "jchar list \<Rightarrow> bool" where
  "compressedForm r =
     (case r of
        Ch a # Ch b # Ch c # Sub k # rest \<Rightarrow>
          a = CHR ''0'' \<and> b = CHR ''.'' \<and> c = CHR ''0'' \<and> k \<le> 9 \<and> length rest \<le> 4 \<and>
          list_all (\<lambda>x. case x of Ch d \<Rightarrow> isDigit d | Sub j \<Rightarrow> False) rest
      | _ \<Rightarrow> False)"

text \<open>
  The book has been empty on both sides from the state \<open>s\<close> on and through the run of
  the updates: in \<open>s\<close> and after every one of them.
\<close>

fun emptyThroughout ::
  "(rat \<Rightarrow> jsnum) \<Rightarrow> (jsval \<Rightarrow> jsnum) \<Rightarrow> book \<Rightarrow> (rat \<times> jsval) list \<Rightarrow> bool" where
  "emptyThroughout toDouble parseFloat s [] = (buyOrders s = [] \<and> sellOrders s = [])"
| "emptyThroughout toDouble parseFloat s ((now, u) # us) =
     (buyOrders s = [] \<and> sellOrders s = [] \<and>
      emptyThroughout toDouble parseFloat (processOrderbookData toDouble parseFloat now s u) us)"

text \<open>Incoming updates for the examples.\<close>

definition bookA :: jsval where
  "bookA = Obj [(''buys'', Arr [Obj [(''price'', Str ''100''), (''quantity'', Str ''3'')]]),
                (''sells'', Arr [Obj [(''price'', Str ''102''), (''quantity'', Str ''4'')]])]"

definition bookEmpty :: jsval where
  "bookEmpty = Obj [(''buys'', Arr []), (''sells'', Arr [])]"

definition bookUnsorted :: jsval where
  "bookUnsorted = Obj [(''buys'', Arr [Obj [(''price'', Str ''1'')], Obj [(''price'', Str ''2'')]])]"

definition bookUnsortedBoth :: jsval where
  "bookUnsortedBoth =
     Obj [(''buys'', Arr [Obj [(''price'', Str ''1'')], Obj [(''price'', Str ''2'')]]),
          (''sells'', Arr [Obj [(''price'', Str ''102'')], Obj [(''price'', Str ''100'')]])]"

text \<open>Twelve bids from the highest price down and three asks from the lowest price up.\<close>

definition deepBids :: "jsval list" where
  "deepBids =
       [Obj [(''price'', Str ''112''), (''quantity'', Str ''1'')],
        Obj [(''price'', Str ''111''), (''quantity'', Str ''2'')],
        Obj [(''price'', Str ''110''), (''quantity'', Str ''3'')],
        Obj [(''price'', Str ''109''), (''quantity'', Str ''4'')],
        Obj [(''price'', Str ''108''), (''quantity'', Str ''5'')],
        Obj [(''price'', Str ''107''), (''quantity'', Str ''6'')],
        Obj [(''price'', Str ''106''), (''quantity'', Str ''7'')],
        Obj [(''price'', Str ''105''), (''quantity'', Str ''8'')],
        Obj [(''price'', Str ''104''), (''quantity'', Str ''9'')],
        Obj [(''price'', Str ''103''), (''quantity'', Str ''10'')],
        Obj [(''price'', Str ''102''), (''quantity'', Str ''11'')],
        Obj [(''price'', Str ''101''), (''quantity'', Str ''12'')]]"

definition deepAsks :: "jsval list" where
  "deepAsks =
       [Obj [(''price'', Str ''113''), (''quantity'', Str ''1'')],
        Obj [(''price'', Str ''114''), (''quantity'', Str ''2'')],
        Obj [(''price'', Str ''115''), (''quantity'', Str ''3'')]]"

definition bookDeep :: jsval where
  "bookDeep = Obj [(''buys'', Arr deepBids), (''sells'', Arr deepAsks)]"

text \<open>
  A rounding for the examples.  An integer or the half of an integer of magnitude at most
  \<open>2\<^sup>5\<^sup>2\<close> is a double, and the runtime's rounding returns a double unchanged; the
  stand-in is meant for these numbers only.
\<close>

definition toDoubleExample :: "rat \<Rightarrow> jsnum" where
  "toDoubleExample x = (if of_int \<lfloor>2 * x\<rfloor> = 2 * x \<and> \<bar>x\<bar> \<le> 2 ^ 52 then Fin x else NaN)"

text \<open>
  Stand-ins for the examples: the two SDK functions, the runtime's text of the numbers
  the examples convert, a market and a filled order form.
\<close>

definition exampleTens :: "nat \<Rightarrow> nat \<Rightarrow> rat \<Rightarrow> rat \<Rightarrow> error + int \<times> int" where
  "exampleTens baseDec quoteDec priceTick quantityTick = Inr (0, 0)"

definition exampleEthereumAddress :: "string \<Rightarrow> error + string" where
  "exampleEthereumAddress a = Inr ''0xab''"

definition exampleNumToString :: "jsnum \<Rightarrow> string" where
  "exampleNumToString x =
     (if x = NaN then ''NaN''
      else if x = Fin (1 / 10 ^ 25) then ''1e-25''
      else if x = Fin (10 ^ 21) then ''1e+21''
      else [])"

definition exampleMarket :: TradingPair where
  "exampleMarket = \<lparr>marketId = ''0x01'', ticker = ''INJ/USDT'', baseDecimals = Some 18,
     quoteDecimals = Some 6, minPriceTickSize = 1 / 1000, minQuantityTickSize = 1 / 1000\<rparr>"

definition exampleApp :: app where
  "exampleApp = \<lparr>isConnected = True, isPlacingOrder = False, injectiveAddresses = [''inj1abc''],
     selectedPair = ''INJ/USDT'', tradingPairs = [exampleMarket], orderSide = Buy,
     orderType = Market, priceInput = [], quantityInput = ''5'', marketPrice = Fin 0\<rparr>"

section \<open>Properties of the synchronizer\<close>

lemma entry_price: "price (entry now x) = get x ''price''"
  by (simp add: entry_def)

lemma toEntry_entry: "toEntry now x = Inr e \<Longrightarrow> e = entry now x"
  by (cases x) auto

lemma mapE_length: "mapE f xs = Inr ys \<Longrightarrow> length ys = length xs"
  by (induction xs arbitrary: ys) (auto split: sum.splits)

lemma mapE_toEntry: "mapE (toEntry now) xs = Inr es \<Longrightarrow> es = map (entry now) xs"
  by (induction xs arbitrary: es) (auto split: sum.splits dest: toEntry_entry)

lemma processSide_length: "processSide now side = Inr es \<Longrightarrow> length es \<le> 10"
  by (auto simp: processSide_def split: if_splits jsval.splits dest: mapE_length)

lemma processSide_Arr:
  "processSide now (Arr xs) = Inr es \<Longrightarrow> es = map (entry now) (take 10 xs)"
  by (simp add: processSide_def mapE_toEntry)

lemma processSide_falsy: "\<not> truthy side \<Longrightarrow> processSide now side = Inr es \<Longrightarrow> es = []"
  by (simp add: processSide_def)

lemma processOrderbookData_lengths:
  "length (buyOrders s) \<le> 10 \<and> length (sellOrders s) \<le> 10 \<Longrightarrow>
   length (buyOrders (processOrderbookData td pf now s u)) \<le> 10 \<and>
   length (sellOrders (processOrderbookData td pf now s u)) \<le> 10"
  by (auto simp: processOrderbookData_def Let_def split: sum.splits dest: processSide_length)

lemma run_lengths:
  "length (buyOrders s) \<le> 10 \<and> length (sellOrders s) \<le> 10 \<Longrightarrow>
   length (buyOrders (run td pf s us)) \<le> 10 \<and> length (sellOrders (run td pf s us)) \<le> 10"
proof (induction us arbitrary: s)
  case Nil
  then show ?case by simp
next
  case (Cons p us)
  obtain now u where p: "p = (now, u)" by (cases p)
  show ?case unfolding p run.simps
    by (rule Cons.IH) (rule processOrderbookData_lengths [OF Cons.prems])
qed

lemma processed:
  assumes "truthy (selectOrderbook u)"
    and "truthy (get (selectOrderbook u) ''buys'') \<or> truthy (get (selectOrderbook u) ''sells'')"
    and "processSide now (get (selectOrderbook u) ''buys'') = Inr bs"
    and "processSide now (get (selectOrderbook u) ''sells'') = Inr as"
  shows "processOrderbookData td pf now s u =
         s\<lparr>buyOrders := bs, sellOrders := as, orderbookLoading := False,
           currentPrice := derivePrice td pf (currentPrice s) bs as\<rparr>"
  using assms by (simp add: processOrderbookData_def Let_def)

lemma sorted_wrt_take: "sorted_wrt P xs \<Longrightarrow> sorted_wrt P (take n xs)"
  by (metis append_take_drop_id sorted_wrt_append)

lemma sorted_wrt_hd: "sorted_wrt P xs \<Longrightarrow> \<forall>x \<in> set (tl xs). P (hd xs) x"
  by (cases xs) auto

text \<open>
  While both retained sides stay empty no update derives a price: the stored price is
  the one of the starting state.
\<close>

lemma empty_sides_keep_price:
  assumes "buyOrders (processOrderbookData td pf now s u) = []"
    and "sellOrders (processOrderbookData td pf now s u) = []"
  shows "currentPrice (processOrderbookData td pf now s u) = currentPrice s"
  using assms by (auto simp: processOrderbookData_def Let_def split: sum.splits if_splits)

lemma emptyThroughout_last:
  "emptyThroughout td pf s us \<Longrightarrow>
   buyOrders (run td pf s us) = [] \<and> sellOrders (run td pf s us) = []"
  by (induction td pf s us rule: emptyThroughout.induct) auto

lemma emptyThroughout_price:
  "emptyThroughout td pf s us \<Longrightarrow> currentPrice (run td pf s us) = currentPrice s"
proof (induction td pf s us rule: emptyThroughout.induct)
  case (1 td pf s)
  then show ?case by simp
next
  case (2 td pf s now u us)
  let ?s' = "processOrderbookData td pf now s u"
  from "2.prems" have e: "emptyThroughout td pf ?s' us" by simp
  then have "buyOrders ?s' = [] \<and> sellOrders ?s' = []" by (cases us) auto
  then have "currentPrice ?s' = currentPrice s" by (simp add: empty_sides_keep_price)
  with "2.IH" [OF e] show ?case by simp
qed

text \<open>
  Claim C10.  When the book content chosen from an incoming update has neither a
  \<^verbatim>\<open>buys\<close> nor a \<^verbatim>\<open>sells\<close> value (absent, or any falsy value), the update only
  clears the loading flag: both retained level lists and the derived price stay as they
  were, and nothing is raised.
\<close>

theorem update_without_sides_keeps_book:
  assumes "\<not> truthy (get (selectOrderbook u) ''buys'')"
    and "\<not> truthy (get (selectOrderbook u) ''sells'')"
  shows "processOrderbookData toDouble parseFloat now s u = s\<lparr>orderbookLoading := False\<rparr>
       \<and> buyOrders (processOrderbookData toDouble parseFloat now s u) = buyOrders s
       \<and> sellOrders (processOrderbookData toDouble parseFloat now s u) = sellOrders s
       \<and> currentPrice (processOrderbookData toDouble parseFloat now s u) = currentPrice s"
  using assms by (simp add: processOrderbookData_def Let_def)

theorem update_without_sides_keeps_book_witness:
  "processOrderbookData toDoubleExample parseDigits 7
     \<lparr>buyOrders = [\<lparr>price = Str ''5'', quantity = Str ''1'', timestamp = Number (Fin 3)\<rparr>],
      sellOrders = [], currentPrice = Fin 5, orderbookLoading = True\<rparr>
     (Obj [(''orderbook'', Obj [(''sequence'', Number (Fin 9))])])
   = \<lparr>buyOrders = [\<lparr>price = Str ''5'', quantity = Str ''1'', timestamp = Number (Fin 3)\<rparr>],
      sellOrders = [], currentPrice = Fin 5, orderbookLoading = False\<rparr>"
  using update_without_sides_keeps_book
    [of "Obj [(''orderbook'', Obj [(''sequence'', Number (Fin 9))])]" toDoubleExample parseDigits 7
        "\<lparr>buyOrders = [\<lparr>price = Str ''5'', quantity = Str ''1'', timestamp = Number (Fin 3)\<rparr>],
      sellOrders = [], currentPrice = Fin 5, orderbookLoading = True\<rparr>"]
  by (simp add: selectOrderbook_def)

text \<open>
  Claim C3.  The one function that every update passes through takes the book content
  \<open>b\<close> out of a wrapper object \<^verbatim>\<open>{orderbook: b}\<close> and out of an array whose first
  element is such a wrapper, also when the wrapper carries other fields or the array
  more elements; a flat object with a \<^verbatim>\<open>buys\<close> or \<^verbatim>\<open>sells\<close> value and no
  \<^verbatim>\<open>orderbook\<close> of its own is its own content; and every value of no recognised shape
  is taken as the content itself.  The choice has no failing branch.
\<close>

theorem selectOrderbook_shapes:
  "(truthy b \<longrightarrow>
      selectOrderbook (Obj [(''orderbook'', b)]) = b \<and>
      selectOrderbook (Arr [Obj [(''orderbook'', b)]]) = b)
   \<and> (truthy (get w ''orderbook'') \<longrightarrow>
      selectOrderbook w = get w ''orderbook'' \<and>
      selectOrderbook (Arr (w # ws)) = get w ''orderbook'')
   \<and> (\<not> truthy (get v ''orderbook'') \<and> (truthy (get v ''buys'') \<or> truthy (get v ''sells''))
      \<longrightarrow> selectOrderbook v = v)
   \<and> (\<not> truthy (get v ''orderbook'') \<and>
      (\<forall>x xs. v = Arr (x # xs) \<longrightarrow> \<not> truthy (get x ''orderbook''))
      \<longrightarrow> selectOrderbook v = v)"
  by (cases v) (auto simp: selectOrderbook_def split: list.splits)

theorem selectOrderbook_shapes_witness:
  "selectOrderbook (Obj [(''orderbook'', bookA)]) = bookA
   \<and> selectOrderbook (Arr [Obj [(''orderbook'', bookA)]]) = bookA
   \<and> selectOrderbook bookA = bookA
   \<and> selectOrderbook (Str ''closed'') = Str ''closed''"
  using selectOrderbook_shapes [where b = bookA and w = "Obj [(''orderbook'', bookA)]"
      and v = bookA and ws = "[]"]
    selectOrderbook_shapes [where b = bookA and w = "Obj [(''orderbook'', bookA)]"
      and v = "Str ''closed''" and ws = "[]"]
  by (simp add: bookA_def)

lemma parseDigits_100: "parseDigits (Str ''100'') = Fin 100"
  by (simp add: parseDigits_def isDigit_def digitsValue_def digitValue_def)

lemma parseDigits_102: "parseDigits (Str ''102'') = Fin 102"
  by (simp add: parseDigits_def isDigit_def digitsValue_def digitValue_def)

lemma parseDigits_1: "parseDigits (Str ''1'') = Fin 1"
  by (simp add: parseDigits_def isDigit_def digitsValue_def digitValue_def)

lemma parseDigits_2: "parseDigits (Str ''2'') = Fin 2"
  by (simp add: parseDigits_def isDigit_def digitsValue_def digitValue_def)

lemma toDoubleExample_202: "toDoubleExample 202 = Fin 202"
  by (simp add: toDoubleExample_def)

lemma toDoubleExample_101: "toDoubleExample 101 = Fin 101"
  by (simp add: toDoubleExample_def)

lemma toDoubleExample_103: "toDoubleExample 103 = Fin 103"
  by (simp add: toDoubleExample_def)

lemma toDoubleExample_103_half: "toDoubleExample (103 / 2) = Fin (103 / 2)"
  by (simp add: toDoubleExample_def)

lemma after_bookA:
  "processOrderbookData toDoubleExample parseDigits 7 initialBook bookA =
     \<lparr>buyOrders = [\<lparr>price = Str ''100'', quantity = Str ''3'', timestamp = Number (Fin 7)\<rparr>],
      sellOrders = [\<lparr>price = Str ''102'', quantity = Str ''4'', timestamp = Number (Fin 7)\<rparr>],
      currentPrice = Fin 101, orderbookLoading = False\<rparr>"
  by (simp add: processOrderbookData_def selectOrderbook_def bookA_def initialBook_def
      processSide_def entry_def parseDigits_100 parseDigits_102
      toDoubleExample_202 toDoubleExample_101)

lemma after_bookA_bookEmpty:
  "run toDoubleExample parseDigits initialBook [(7, bookA), (8, bookEmpty)] =
     \<lparr>buyOrders = [], sellOrders = [], currentPrice = Fin 101, orderbookLoading = False\<rparr>"
  by (simp add: after_bookA)
     (simp add: processOrderbookData_def selectOrderbook_def bookEmpty_def processSide_def)

lemma after_bookUnsortedBoth:
  "currentPrice (processOrderbookData toDoubleExample parseDigits 7 initialBook bookUnsortedBoth)
     = Fin (103 / 2)"
  by (simp add: processOrderbookData_def selectOrderbook_def bookUnsortedBoth_def initialBook_def
      processSide_def entry_def parseDigits_1 parseDigits_102
      toDoubleExample_103 toDoubleExample_103_half)

theorem reference_price_counterexample:
  "buyOrders (run toDoubleExample parseDigits initialBook [(7, bookA), (8, bookEmpty)]) = []
   \<and> sellOrders (run toDoubleExample parseDigits initialBook [(7, bookA), (8, bookEmpty)]) = []
   \<and> currentPrice (run toDoubleExample parseDigits initialBook [(7, bookA), (8, bookEmpty)])
       = Fin 101
   \<and> currentPrice
        (processOrderbookData toDoubleExample parseDigits 7 initialBook bookUnsortedBoth)
       = Fin (103 / 2)"
  by (simp only: after_bookA_bookEmpty after_bookUnsortedBoth) simp

text \<open>
  Claim C1, as the code has it.  For every update that is processed (the chosen book
  content has a \<^verbatim>\<open>buys\<close> or \<^verbatim>\<open>sells\<close> value and both sides are read without an
  exception), the derived price is taken from the first retained level of each side,
  which is the best bid and the best ask when the retained sides are ordered.  With
  both sides non-empty it is the double \<^verbatim>\<open>(bestBid + bestAsk) / 2\<close>: the sum of the two
  first prices rounded to a double, halved and rounded again, which is their arithmetic
  mean whenever the sum and its half are doubles.  With one side empty it is the first
  price of the other side.  With both sides empty the update derives no price and the
  stored one stays; it is the initial 0 when the book has been empty since the start.
\<close>

theorem reference_price:
  assumes "truthy (selectOrderbook u)"
    and "truthy (get (selectOrderbook u) ''buys'') \<or> truthy (get (selectOrderbook u) ''sells'')"
    and "processSide now (get (selectOrderbook u) ''buys'') = Inr bids"
    and "processSide now (get (selectOrderbook u) ''sells'') = Inr asks"
  shows "buyOrders (processOrderbookData toDouble parseFloat now s u) = bids
       \<and> sellOrders (processOrderbookData toDouble parseFloat now s u) = asks
       \<and> (bids \<noteq> [] \<and> asks \<noteq> [] \<longrightarrow>
            currentPrice (processOrderbookData toDouble parseFloat now s u) =
              jhalf toDouble
                (jadd toDouble (parseFloat (price (hd bids))) (parseFloat (price (hd asks))))
          \<and> (\<forall>x y. parseFloat (price (hd bids)) = Fin x \<and> parseFloat (price (hd asks)) = Fin y
                   \<and> toDouble (x + y) = Fin (x + y)
                   \<and> toDouble ((x + y) / 2) = Fin ((x + y) / 2) \<longrightarrow>
                currentPrice (processOrderbookData toDouble parseFloat now s u)
                  = Fin ((x + y) / 2)))
       \<and> (bids \<noteq> [] \<and> asks = [] \<longrightarrow>
            currentPrice (processOrderbookData toDouble parseFloat now s u)
              = parseFloat (price (hd bids)))
       \<and> (bids = [] \<and> asks \<noteq> [] \<longrightarrow>
            currentPrice (processOrderbookData toDouble parseFloat now s u)
              = parseFloat (price (hd asks)))
       \<and> (bids = [] \<and> asks = [] \<longrightarrow>
            currentPrice (processOrderbookData toDouble parseFloat now s u) = currentPrice s)
       \<and> (descendingByPrice parseFloat bids \<longrightarrow>
            (\<forall>b \<in> set (tl bids). jge (parseFloat (price (hd bids))) (parseFloat (price b))))
       \<and> (ascendingByPrice parseFloat asks \<longrightarrow>
            (\<forall>a \<in> set (tl asks). jge (parseFloat (price a)) (parseFloat (price (hd asks)))))
       \<and> (emptyThroughout toDouble parseFloat initialBook us \<longrightarrow>
            currentPrice (run toDouble parseFloat initialBook us) = Fin 0)"
proof -
  have s': "processOrderbookData toDouble parseFloat now s u =
         s\<lparr>buyOrders := bids, sellOrders := asks, orderbookLoading := False,
           currentPrice := derivePrice toDouble parseFloat (currentPrice s) bids asks\<rparr>"
    using assms by (rule processed)
  have best_bid: "\<forall>b \<in> set (tl bids). jge (parseFloat (price (hd bids))) (parseFloat (price b))"
    if "descendingByPrice parseFloat bids"
    using sorted_wrt_hd [OF that [unfolded descendingByPrice_def]] .
  have best_ask: "\<forall>a \<in> set (tl asks). jge (parseFloat (price a)) (parseFloat (price (hd asks)))"
    if "ascendingByPrice parseFloat asks"
    using sorted_wrt_hd [OF that [unfolded ascendingByPrice_def]] .
  have start: "currentPrice (run toDouble parseFloat initialBook us) = Fin 0"
    if "emptyThroughout toDouble parseFloat initialBook us"
    using emptyThroughout_price [OF that] by (simp add: initialBook_def)
  have prices: "(bids \<noteq> [] \<and> asks \<noteq> [] \<longrightarrow>
            derivePrice toDouble parseFloat (currentPrice s) bids asks =
              jhalf toDouble
                (jadd toDouble (parseFloat (price (hd bids))) (parseFloat (price (hd asks))))
          \<and> (\<forall>x y. parseFloat (price (hd bids)) = Fin x \<and> parseFloat (price (hd asks)) = Fin y
                   \<and> toDouble (x + y) = Fin (x + y)
                   \<and> toDouble ((x + y) / 2) = Fin ((x + y) / 2) \<longrightarrow>
                derivePrice toDouble parseFloat (currentPrice s) bids asks = Fin ((x + y) / 2)))
       \<and> (bids \<noteq> [] \<and> asks = [] \<longrightarrow>
            derivePrice toDouble parseFloat (currentPrice s) bids asks
              = parseFloat (price (hd bids)))
       \<and> (bids = [] \<and> asks \<noteq> [] \<longrightarrow>
            derivePrice toDouble parseFloat (currentPrice s) bids asks
              = parseFloat (price (hd asks)))
       \<and> (bids = [] \<and> asks = [] \<longrightarrow>
            derivePrice toDouble parseFloat (currentPrice s) bids asks = currentPrice s)"
    by (cases bids; cases asks) auto
  show ?thesis
    using prices best_bid best_ask start by (simp add: s')
qed

theorem reference_price_witness:
  "currentPrice (processOrderbookData toDoubleExample parseDigits 7 initialBook bookA)
     = Fin ((100 + 102) / 2)"
proof -
  have ob: "selectOrderbook bookA = bookA"
    by (simp add: selectOrderbook_def bookA_def)
  have b: "processSide 7 (get (selectOrderbook bookA) ''buys'') =
      Inr [\<lparr>price = Str ''100'', quantity = Str ''3'', timestamp = Number (Fin 7)\<rparr>]"
    unfolding ob by (simp add: bookA_def processSide_def entry_def)
  have a: "processSide 7 (get (selectOrderbook bookA) ''sells'') =
      Inr [\<lparr>price = Str ''102'', quantity = Str ''4'', timestamp = Number (Fin 7)\<rparr>]"
    unfolding ob by (simp add: bookA_def processSide_def entry_def)
  have t: "truthy (selectOrderbook bookA)"
    unfolding ob by (simp add: bookA_def)
  have t2: "truthy (get (selectOrderbook bookA) ''buys'') \<or> truthy (get (selectOrderbook bookA) ''sells'')"
    unfolding ob by (simp add: bookA_def)
  show ?thesis
    using reference_price [OF t t2 b a, of toDoubleExample parseDigits initialBook]
    by (simp add: parseDigits_100 parseDigits_102 toDoubleExample_202 toDoubleExample_101)
qed

theorem retained_levels_counterexample:
  "\<not> descendingByPrice parseDigits
       (buyOrders (processOrderbookData toDoubleExample parseDigits 7 initialBook bookUnsorted))"
  by (simp add: processOrderbookData_def selectOrderbook_def bookUnsorted_def initialBook_def
      processSide_def entry_def descendingByPrice_def parseDigits_1 parseDigits_2)

text \<open>
  Claim C4, as the code has it.  From the initial state, after any run of updates each
  retained side holds at most 10 levels.  A processed update retains, for a side that
  comes as an array, the first 10 levels of that array in the incoming order, each with
  its own price, quantity and timestamp (levels beyond the tenth are dropped, not
  merged), and no level for a side that is absent.  Nothing is sorted: the retained
  bids descend by price when the incoming bids do, and the retained asks ascend when
  the incoming asks do.
\<close>

theorem retained_levels:
  assumes "truthy (selectOrderbook u)"
    and "truthy (get (selectOrderbook u) ''buys'') \<or> truthy (get (selectOrderbook u) ''sells'')"
    and "processSide now (get (selectOrderbook u) ''buys'') = Inr bids"
    and "processSide now (get (selectOrderbook u) ''sells'') = Inr asks"
  shows "length (buyOrders (run toDouble parseFloat initialBook us)) \<le> 10
       \<and> length (sellOrders (run toDouble parseFloat initialBook us)) \<le> 10
       \<and> buyOrders (processOrderbookData toDouble parseFloat now s u) = bids
       \<and> sellOrders (processOrderbookData toDouble parseFloat now s u) = asks
       \<and> length bids \<le> 10 \<and> length asks \<le> 10
       \<and> (\<not> truthy (get (selectOrderbook u) ''buys'') \<longrightarrow> bids = [])
       \<and> (\<not> truthy (get (selectOrderbook u) ''sells'') \<longrightarrow> asks = [])
       \<and> (\<forall>xs. get (selectOrderbook u) ''buys'' = Arr xs \<longrightarrow>
             bids = map (entry now) (take 10 xs)
             \<and> length bids = min 10 (length xs)
             \<and> (incomingDescending parseFloat xs \<longrightarrow> descendingByPrice parseFloat bids))
       \<and> (\<forall>ys. get (selectOrderbook u) ''sells'' = Arr ys \<longrightarrow>
             asks = map (entry now) (take 10 ys)
             \<and> length asks = min 10 (length ys)
             \<and> (incomingAscending parseFloat ys \<longrightarrow> ascendingByPrice parseFloat asks))"
proof -
  have s': "processOrderbookData toDouble parseFloat now s u =
           s\<lparr>buyOrders := bids, sellOrders := asks, orderbookLoading := False,
             currentPrice := derivePrice toDouble parseFloat (currentPrice s) bids asks\<rparr>"
    using assms by (rule processed)
  have inv: "length (buyOrders (run toDouble parseFloat initialBook us)) \<le> 10
       \<and> length (sellOrders (run toDouble parseFloat initialBook us)) \<le> 10"
    by (rule run_lengths) (simp add: initialBook_def)
  have lb: "length bids \<le> 10" using assms(3) by (rule processSide_length)
  have la: "length asks \<le> 10" using assms(4) by (rule processSide_length)
  have eb: "bids = []" if "\<not> truthy (get (selectOrderbook u) ''buys'')"
    using that assms(3) by (rule processSide_falsy)
  have ea: "asks = []" if "\<not> truthy (get (selectOrderbook u) ''sells'')"
    using that assms(4) by (rule processSide_falsy)
  have ab: "bids = map (entry now) (take 10 xs)
             \<and> length bids = min 10 (length xs)
             \<and> (incomingDescending parseFloat xs \<longrightarrow> descendingByPrice parseFloat bids)"
    if "get (selectOrderbook u) ''buys'' = Arr xs" for xs
  proof -
    have pb: "bids = map (entry now) (take 10 xs)"
      using assms(3) unfolding that by (rule processSide_Arr)
    have "length bids = min 10 (length xs)"
      unfolding pb by (simp add: min.commute)
    moreover have "descendingByPrice parseFloat bids" if "incomingDescending parseFloat xs"
    proof -
      from that have "incomingDescending parseFloat (take 10 xs)"
        unfolding incomingDescending_def by (rule sorted_wrt_take)
      then show ?thesis
        unfolding pb descendingByPrice_def incomingDescending_def sorted_wrt_map entry_price .
    qed
    ultimately show ?thesis using pb by blast
  qed
  have aa: "asks = map (entry now) (take 10 ys)
             \<and> length asks = min 10 (length ys)
             \<and> (incomingAscending parseFloat ys \<longrightarrow> ascendingByPrice parseFloat asks)"
    if "get (selectOrderbook u) ''sells'' = Arr ys" for ys
  proof -
    have pa: "asks = map (entry now) (take 10 ys)"
      using assms(4) unfolding that by (rule processSide_Arr)
    have "length asks = min 10 (length ys)"
      unfolding pa by (simp add: min.commute)
    moreover have "ascendingByPrice parseFloat asks" if "incomingAscending parseFloat ys"
    proof -
      from that have "incomingAscending parseFloat (take 10 ys)"
        unfolding incomingAscending_def by (rule sorted_wrt_take)
      then show ?thesis
        unfolding pa ascendingByPrice_def incomingAscending_def sorted_wrt_map entry_price .
    qed
    ultimately show ?thesis using pa by blast
  qed
  have b1: "buyOrders (processOrderbookData toDouble parseFloat now s u) = bids"
    by (simp add: s')
  have b2: "sellOrders (processOrderbookData toDouble parseFloat now s u) = asks"
    by (simp add: s')
  show ?thesis
    unfolding b1 b2 using inv lb la eb ea ab aa by blast
qed

lemma parseDigits_text:
  "s \<noteq> [] \<Longrightarrow> list_all isDigit s \<Longrightarrow> parseDigits (Str s) = Fin (of_nat (digitsValue s))"
  by (simp add: parseDigits_def)

lemma deepBids_descending: "incomingDescending parseDigits deepBids"
  by (simp add: incomingDescending_def deepBids_def parseDigits_def isDigit_def
      digitsValue_def digitValue_def)

lemma deepAsks_ascending: "incomingAscending parseDigits deepAsks"
  by (simp add: incomingAscending_def deepAsks_def parseDigits_def isDigit_def
      digitsValue_def digitValue_def)

theorem retained_levels_witness:
  "length (buyOrders (processOrderbookData toDoubleExample parseDigits 7 initialBook bookDeep)) = 10
   \<and> map price (buyOrders (processOrderbookData toDoubleExample parseDigits 7 initialBook bookDeep))
       = [Str ''112'', Str ''111'', Str ''110'', Str ''109'', Str ''108'',
          Str ''107'', Str ''106'', Str ''105'', Str ''104'', Str ''103'']
   \<and> map quantity (buyOrders (processOrderbookData toDoubleExample parseDigits 7 initialBook bookDeep))
       = [Str ''1'', Str ''2'', Str ''3'', Str ''4'', Str ''5'',
          Str ''6'', Str ''7'', Str ''8'', Str ''9'', Str ''10'']
   \<and> length (sellOrders (processOrderbookData toDoubleExample parseDigits 7 initialBook bookDeep)) = 3
   \<and> descendingByPrice parseDigits
        (buyOrders (processOrderbookData toDoubleExample parseDigits 7 initialBook bookDeep))
   \<and> ascendingByPrice parseDigits
        (sellOrders (processOrderbookData toDoubleExample parseDigits 7 initialBook bookDeep))"
proof -
  let ?s' = "processOrderbookData toDoubleExample parseDigits 7 initialBook bookDeep"
  have ob: "selectOrderbook bookDeep = bookDeep"
    by (simp add: selectOrderbook_def bookDeep_def)
  have gb: "get (selectOrderbook bookDeep) ''buys'' = Arr deepBids"
    unfolding ob by (simp add: bookDeep_def)
  have ga: "get (selectOrderbook bookDeep) ''sells'' = Arr deepAsks"
    unfolding ob by (simp add: bookDeep_def)
  have b: "processSide 7 (get (selectOrderbook bookDeep) ''buys'') =
      Inr (map (entry 7) (take 10 deepBids))"
    unfolding gb by (simp add: processSide_def deepBids_def)
  have a: "processSide 7 (get (selectOrderbook bookDeep) ''sells'') =
      Inr (map (entry 7) (take 10 deepAsks))"
    unfolding ga by (simp add: processSide_def deepAsks_def)
  have t: "truthy (selectOrderbook bookDeep)"
    unfolding ob by (simp add: bookDeep_def)
  have t2: "truthy (get (selectOrderbook bookDeep) ''buys'')
            \<or> truthy (get (selectOrderbook bookDeep) ''sells'')"
    unfolding gb by simp
  note r = retained_levels [OF t t2 b a, of toDoubleExample parseDigits "[]" initialBook]
  from r have bs: "buyOrders ?s' = map (entry 7) (take 10 deepBids)" by blast
  from r have as: "sellOrders ?s' = map (entry 7) (take 10 deepAsks)" by blast
  from r gb deepBids_descending
  have d: "descendingByPrice parseDigits (map (entry 7) (take 10 deepBids))" by blast
  from r ga deepAsks_ascending
  have u: "ascendingByPrice parseDigits (map (entry 7) (take 10 deepAsks))" by blast
  have "length (buyOrders ?s') = 10"
    unfolding bs by (simp add: deepBids_def)
  moreover have "map price (buyOrders ?s')
       = [Str ''112'', Str ''111'', Str ''110'', Str ''109'', Str ''108'',
          Str ''107'', Str ''106'', Str ''105'', Str ''104'', Str ''103'']"
    unfolding bs by (simp add: deepBids_def entry_def)
  moreover have "map quantity (buyOrders ?s')
       = [Str ''1'', Str ''2'', Str ''3'', Str ''4'', Str ''5'',
          Str ''6'', Str ''7'', Str ''8'', Str ''9'', Str ''10'']"
    unfolding bs by (simp add: deepBids_def entry_def)
  moreover have "length (sellOrders ?s') = 3"
    unfolding as by (simp add: deepAsks_def)
  moreover have "descendingByPrice parseDigits (buyOrders ?s')"
    unfolding bs by (rule d)
  moreover have "ascendingByPrice parseDigits (sellOrders ?s')"
    unfolding as by (rule u)
  ultimately show ?thesis by blast
qed

section \<open>Decimal digits\<close>

lemma below_ten: "d < 10 \<Longrightarrow> d = 0 \<or> d = 1 \<or> d = 2 \<or> d = 3 \<or> d = 4 \<or> d = 5 \<or> d = 6 \<or> d = 7 \<or> d = 8 \<or> d = (9::nat)"
  by arith

lemma digitValue_digit: "d < 10 \<Longrightarrow> digitValue (digit d) = d"
  using below_ten [of d] by (auto simp: digit_def digitValue_def)

lemma isDigit_digit: "d < 10 \<Longrightarrow> isDigit (digit d)"
  using below_ten [of d] by (auto simp: digit_def isDigit_def)

lemma digit_eq_zero: "d < 10 \<Longrightarrow> digit d = CHR ''0'' \<longleftrightarrow> d = 0"
  using below_ten [of d] by (auto simp: digit_def)

lemma digitsValue_snoc: "digitsValue (s @ [c]) = 10 * digitsValue s + digitValue c"
  by (simp add: digitsValue_def)

lemma digitsValue_decimal: "digitsValue (decimal n) = n"
proof (induction n rule: decimal.induct)
  case (1 n)
  show ?case
  proof (cases "n < 10")
    case True
    then show ?thesis
      by (simp add: decimal.simps [of n] digitsValue_def digitValue_digit)
  next
    case False
    then have "digitsValue (decimal n) = 10 * digitsValue (decimal (n div 10)) + digitValue (digit (n mod 10))"
      by (simp add: decimal.simps [of n] digitsValue_snoc)
    also have "\<dots> = 10 * (n div 10) + n mod 10"
      using 1 False by (simp add: digitValue_digit)
    finally show ?thesis by simp
  qed
qed

lemma decimal_digit: "n < 10 \<Longrightarrow> decimal n = [digit n]"
  by (simp add: decimal.simps [of n])

lemma zeros23: "replicate 23 CHR ''0'' = ''00000000000000000000000''"
  by (simp add: eval_nat_numeral)

lemma decimal_0: "decimal 0 = ''0''"
  by (simp add: decimal_digit digit_def)

lemma decimal_length: "length (decimal n) \<le> k \<longleftrightarrow> n < 10 ^ k \<and> 0 < k"
proof (induction n arbitrary: k rule: decimal.induct)
  case (1 n)
  show ?case
  proof (cases "n < 10")
    case True
    have "n < 10 * 10 ^ k'" for k'
    proof -
      have "(10::nat) \<le> 10 * 10 ^ k'" by simp
      with True show ?thesis by (rule less_le_trans)
    qed
    with True show ?thesis
      by (cases k) (auto simp: decimal_digit)
  next
    case False
    show ?thesis
    proof (cases k)
      case 0
      with False show ?thesis by (simp add: decimal.simps [of n])
    next
      case (Suc k')
      have "length (decimal n) \<le> k \<longleftrightarrow> length (decimal (n div 10)) \<le> k'"
        using False Suc by (simp add: decimal.simps [of n])
      also have "\<dots> \<longleftrightarrow> n div 10 < 10 ^ k' \<and> 0 < k'"
        using 1 False by simp
      also have "\<dots> \<longleftrightarrow> n < 10 ^ k \<and> 0 < k"
      proof -
        have "n div 10 < 10 ^ k' \<longleftrightarrow> n < 10 ^ k"
          unfolding Suc by (simp add: less_mult_imp_div_less div_less_iff_less_mult mult.commute)
        moreover have "0 < k'" if "n < 10 ^ k"
          using that False Suc by (cases k') auto
        ultimately show ?thesis using Suc by auto
      qed
      finally show ?thesis .
    qed
  qed
qed

lemma subaccountId_zeros:
  "subaccountId ethereumAddress = ethereumAddress @ ''000000000000000000000000''"
  by (simp add: subaccountId_def decimal_0 zeros23)

section \<open>Properties of the submission pipeline\<close>



lemma createOrder_market_no_price:
  "orderType a = Market \<Longrightarrow> jle (marketPrice a) 0 \<or> isNaN (marketPrice a) \<Longrightarrow>
   createOrder pf nts tens eth a addr m \<noteq> Scaling c"
  by (auto simp: createOrder_def Let_def split: sum.splits prod.splits)

text \<open>
  What the button's \<^verbatim>\<open>disabled\<close> attribute gives \<^verbatim>\<open>handlePlaceOrder\<close> at every
  submission attempt, and what the guard of line 579 does, which no attempt reaches.
\<close>

lemma enabled_button:
  "\<not> placeOrderDisabled a \<Longrightarrow>
   quantityInput a \<noteq> [] \<and> isConnected a \<and> \<not> isPlacingOrder a \<and>
   (orderType a = Limit \<longrightarrow> priceInput a \<noteq> [])"
  by (auto simp: placeOrderDisabled_def)

lemma empty_quantity_returns:
  "quantityInput a = [] \<Longrightarrow> handlePlaceOrder pf nts tens eth a = Returned"
  by (simp add: handlePlaceOrder_def)



theorem market_order_without_price_counterexample:
  "buyOrders (run toDoubleExample parseDigits initialBook [(7, bookA), (8, bookEmpty)]) = []
   \<and> sellOrders (run toDoubleExample parseDigits initialBook [(7, bookA), (8, bookEmpty)]) = []
   \<and> handlePlaceOrder parseDigits exampleNumToString exampleTens exampleEthereumAddress
       (exampleApp\<lparr>marketPrice :=
          currentPrice (run toDoubleExample parseDigits initialBook [(7, bookA), (8, bookEmpty)])\<rparr>)
     = Scaling \<lparr>subaccount = ''0xab000000000000000000000000'', orderTypeValue = 1,
         priceValue = Fin 101, quantityValue = Fin 5,
         priceTensMultiplier = 0, quantityTensMultiplier = 0\<rparr>"
  by (simp only: after_bookA_bookEmpty)
     (simp add: handlePlaceOrder_def exampleApp_def getCurrentPairData_def exampleMarket_def
        createOrder_def exampleTens_def exampleEthereumAddress_def subaccountId_zeros
        parseDigits_def isDigit_def digitsValue_def digitValue_def)

text \<open>
  Claim C8, as the code has it.  When the order book has been empty on both sides since
  the synchronizer started, no reference price was ever derived: \<^verbatim>\<open>currentPrice\<close> is
  still its initial 0.  A market order submitted then never reaches the conversion of
  price and quantity, and with a quantity, a connected wallet and a selected market it
  fails validation with the price-unavailable message.
\<close>

theorem market_order_without_price:
  assumes "orderType a = Market"
    and "emptyThroughout toDouble parseFloat initialBook us"
    and "marketPrice a = currentPrice (run toDouble parseFloat initialBook us)"
  shows "buyOrders (run toDouble parseFloat initialBook us) = []
       \<and> sellOrders (run toDouble parseFloat initialBook us) = []
       \<and> currentPrice (run toDouble parseFloat initialBook us) = Fin 0
       \<and> (\<forall>c. handlePlaceOrder parseFloat nts tens eth a \<noteq> Scaling c)
       \<and> (quantityInput a \<noteq> [] \<and> isConnected a \<and> injectiveAddresses a \<noteq> [] \<and>
          getCurrentPairData (tradingPairs a) (selectedPair a) \<noteq> None \<longrightarrow>
          handlePlaceOrder parseFloat nts tens eth a =
            Rejected ''Market price not available yet. Please wait for orderbook to load.'')"
proof -
  have sides: "buyOrders (run toDouble parseFloat initialBook us) = []
       \<and> sellOrders (run toDouble parseFloat initialBook us) = []"
    using assms(2) by (rule emptyThroughout_last)
  have price: "currentPrice (run toDouble parseFloat initialBook us) = Fin 0"
    using emptyThroughout_price [OF assms(2)] by (simp add: initialBook_def)
  with assms(3) have mp: "marketPrice a = Fin 0" by simp
  have "handlePlaceOrder parseFloat nts tens eth a \<noteq> Scaling c" for c
    using assms(1) mp
    by (auto simp: handlePlaceOrder_def createOrder_market_no_price
             split: option.splits list.splits)
  moreover have "handlePlaceOrder parseFloat nts tens eth a =
            Rejected ''Market price not available yet. Please wait for orderbook to load.''"
    if "quantityInput a \<noteq> [] \<and> isConnected a \<and> injectiveAddresses a \<noteq> [] \<and>
          getCurrentPairData (tradingPairs a) (selectedPair a) \<noteq> None"
    using that assms(1) mp
    by (auto simp: handlePlaceOrder_def split: option.splits list.splits)
  ultimately show ?thesis using sides price by blast
qed

lemma empty_since_start:
  "emptyThroughout toDoubleExample parseDigits initialBook [(8, bookEmpty)]"
  by (simp add: initialBook_def processOrderbookData_def selectOrderbook_def bookEmpty_def
      processSide_def)

theorem market_order_without_price_witness:
  "emptyThroughout toDoubleExample parseDigits initialBook [(8, bookEmpty)]
   \<and> handlePlaceOrder parseDigits exampleNumToString exampleTens exampleEthereumAddress
       (exampleApp\<lparr>marketPrice :=
          currentPrice (run toDoubleExample parseDigits initialBook [(8, bookEmpty)])\<rparr>)
     = Rejected ''Market price not available yet. Please wait for orderbook to load.''"
proof -
  let ?a = "exampleApp\<lparr>marketPrice :=
          currentPrice (run toDoubleExample parseDigits initialBook [(8, bookEmpty)])\<rparr>"
  have t: "orderType ?a = Market" by (simp add: exampleApp_def)
  have m: "marketPrice ?a = currentPrice (run toDoubleExample parseDigits initialBook [(8, bookEmpty)])"
    by simp
  have pre: "quantityInput ?a \<noteq> [] \<and> isConnected ?a \<and> injectiveAddresses ?a \<noteq> [] \<and>
          getCurrentPairData (tradingPairs ?a) (selectedPair ?a) \<noteq> None"
    by (simp add: exampleApp_def getCurrentPairData_def exampleMarket_def)
  from market_order_without_price [OF t empty_since_start m,
      of exampleNumToString exampleTens exampleEthereumAddress] pre
  have "handlePlaceOrder parseDigits exampleNumToString exampleTens exampleEthereumAddress ?a
     = Rejected ''Market price not available yet. Please wait for orderbook to load.''"
    by blast
  with empty_since_start show ?thesis by blast
qed

section \<open>Properties of the stream subscription\<close>

text \<open>
  Claim C9 at a change of market from A to B.  The cleanup clears the reference and
  leaves the subscription for A open at the stream service, beside the new one for B;
  an update that the service then delivers for A is processed into the shown book.
\<close>

theorem cleanup_leaves_subscription_open:
  "subscriptions (selectMarket ''B'' (selectMarket ''A'' initialSync)) = [(0, ''A''), (1, ''B'')]
   \<and> streamRef (selectMarket ''B'' (selectMarket ''A'' initialSync)) = Some 1
   \<and> buyOrders (shown (selectMarket ''B'' (selectMarket ''A'' initialSync))) = []
   \<and> buyOrders (shown (deliver toDoubleExample parseDigits 7 0 bookA
        (selectMarket ''B'' (selectMarket ''A'' initialSync)))) =
      [\<lparr>price = Str ''100'', quantity = Str ''3'', timestamp = Number (Fin 7)\<rparr>]"
proof -
  have s: "selectMarket ''B'' (selectMarket ''A'' initialSync) =
      \<lparr>streamRef = Some 1, subscriptions = [(0, ''A''), (1, ''B'')], shown = initialBook\<rparr>"
    by (simp add: selectMarket_def startStream_def cleanup_def initialSync_def initialBook_def)
  show ?thesis
    unfolding s by (simp add: deliver_def after_bookA) (simp add: initialBook_def)
qed

section \<open>Properties of the small-value formatter\<close>

lemma decimal_not_Nil: "decimal n \<noteq> []"
  by (simp add: decimal.simps [of n])

lemma decimal_isDigit: "list_all isDigit (decimal n)"
proof (induction n rule: decimal.induct)
  case (1 n)
  show ?case
  proof (cases "n < 10")
    case True
    then show ?thesis by (simp add: decimal_digit isDigit_digit)
  next
    case False
    with 1 show ?thesis
      by (simp add: decimal.simps [of n] isDigit_digit)
  qed
qed

lemma hd_decimal: "0 < n \<Longrightarrow> hd (decimal n) \<noteq> CHR ''0''"
proof (induction n rule: decimal.induct)
  case (1 n)
  show ?case
  proof (cases "n < 10")
    case True
    with "1.prems" show ?thesis by (simp add: decimal_digit digit_eq_zero)
  next
    case False
    then have "0 < n div 10" by simp
    with 1 False have "hd (decimal (n div 10)) \<noteq> CHR ''0''" by simp
    with False show ?thesis
      by (simp add: decimal.simps [of n] decimal_not_Nil)
  qed
qed

lemma dropWhile_append_keep:
  "\<exists>x \<in> set xs. \<not> P x \<Longrightarrow> dropWhile P (xs @ ys) = dropWhile P xs @ ys"
  by (induction xs) auto

lemma significant_props:
  assumes "0 < n"
  shows "significant n \<noteq> []"
    and "hd (significant n) \<noteq> CHR ''0''"
    and "last (significant n) \<noteq> CHR ''0''"
    and "list_all isDigit (significant n)"
    and "\<exists>j. decimal n = significant n @ replicate j CHR ''0''"
proof -
  let ?d = "decimal n"
  let ?z = "\<lambda>c. c = CHR ''0''"
  have dn: "?d \<noteq> []" by (rule decimal_not_Nil)
  have hd: "hd ?d \<noteq> CHR ''0''" using assms by (rule hd_decimal)
  have "replicate (length (rev (takeWhile ?z (rev ?d)))) CHR ''0'' = rev (takeWhile ?z (rev ?d))"
    by (rule replicate_length_same) (auto dest: set_takeWhileD)
  then have tw: "rev (takeWhile ?z (rev ?d)) = replicate (length (takeWhile ?z (rev ?d))) CHR ''0''"
    by simp
  have "rev (rev ?d) = rev (takeWhile ?z (rev ?d) @ dropWhile ?z (rev ?d))"
    by (simp only: takeWhile_dropWhile_id)
  then have "?d = rev (dropWhile ?z (rev ?d)) @ rev (takeWhile ?z (rev ?d))"
    by (simp only: rev_rev_ident rev_append)
  then have dec: "?d = significant n @ replicate (length (takeWhile ?z (rev ?d))) CHR ''0''"
    using tw by (simp add: significant_def)
  show ex: "\<exists>j. decimal n = significant n @ replicate j CHR ''0''"
    using dec by blast
  show ne: "significant n \<noteq> []"
  proof
    assume e: "significant n = []"
    with dec have "?d = replicate (length (takeWhile ?z (rev ?d))) CHR ''0''" by simp
    with dn have "hd ?d = CHR ''0''"
      by (metis hd_replicate replicate_empty)
    with hd show False by simp
  qed
  show "hd (significant n) \<noteq> CHR ''0''"
    using dec ne hd by (metis hd_append2)
  show "last (significant n) \<noteq> CHR ''0''"
  proof -
    have "dropWhile ?z (rev ?d) \<noteq> []" using ne by (simp add: significant_def)
    then have "\<not> ?z (hd (dropWhile ?z (rev ?d)))" by (rule hd_dropWhile)
    then show ?thesis
      using ne by (simp add: significant_def last_rev)
  qed
  show "list_all isDigit (significant n)"
    using decimal_isDigit [of n] dec by (metis list_all_append)
qed


lemma toFixed_digits:
  assumes "0 \<le> r" and "r < 10 ^ 21" and "0 < f" and "f \<le> 100"
  shows "toFixed nts (Fin r) f =
           Inr (let d = decimal (nat \<lfloor>r * 10 ^ f + 1 / 2\<rfloor>)
                in if length d \<le> f then ''0.'' @ replicate (f - length d) CHR ''0'' @ d
                   else take (length d - f) d @ ''.'' @ drop (length d - f) d)"
proof -
  let ?d = "decimal (nat \<lfloor>r * 10 ^ f + 1 / 2\<rfloor>)"
  have abs: "\<bar>r\<bar> = r" using assms(1) by simp
  have pad: "take (Suc f - f) (replicate (Suc f - length ?d) CHR ''0'' @ ?d) = ''0''
           \<and> drop (Suc f - f) (replicate (Suc f - length ?d) CHR ''0'' @ ?d)
               = replicate (f - length ?d) CHR ''0'' @ ?d"
    if "length ?d \<le> f"
  proof -
    have "Suc f - length ?d = Suc (f - length ?d)" using that by (rule Suc_diff_le)
    then show ?thesis by simp
  qed
  show ?thesis
    using assms pad by (simp add: toFixed_def abs Let_def)
qed

lemma dot_not_digit: "isDigit c \<Longrightarrow> c \<noteq> CHR ''.''"
  by (auto simp: isDigit_def)

lemma stripTrailingZeros_decimal:
  assumes "0 < n"
  shows "stripTrailingZeros (pre @ decimal n) = pre @ significant n"
proof -
  let ?z = "\<lambda>c. c = CHR ''0''"
  note sg = significant_props [OF assms]
  have "hd (decimal n) \<in> set (rev (decimal n))"
    using decimal_not_Nil [of n] by simp
  moreover have "\<not> ?z (hd (decimal n))" using assms by (rule hd_decimal)
  ultimately have "\<exists>x \<in> set (rev (decimal n)). \<not> ?z x" by blast
  then have "dropWhile ?z (rev (decimal n) @ rev pre) = dropWhile ?z (rev (decimal n)) @ rev pre"
    by (rule dropWhile_append_keep)
  then have t: "rev (dropWhile ?z (rev (pre @ decimal n))) = pre @ significant n"
    by (simp add: significant_def)
  have "isDigit (last (significant n))"
    using sg(1,4) by (simp add: list_all_iff)
  then have "last (pre @ significant n) \<noteq> CHR ''.''"
    using sg(1) by (simp add: dot_not_digit)
  then show ?thesis
    unfolding stripTrailingZeros_def Let_def t by auto
qed

lemma matchLeadingZeros_zeros:
  assumes "0 < k" and "sig \<noteq> []" and "hd sig \<noteq> CHR ''0''"
  shows "matchLeadingZeros (''0.'' @ replicate k CHR ''0'' @ sig) = Some (''0.'' @ replicate k CHR ''0'')"
proof -
  have "takeWhile (\<lambda>c. c = CHR ''0'') sig = []"
    using assms(2,3) by (cases sig) auto
  then have "takeWhile (\<lambda>c. c = CHR ''0'') (replicate k CHR ''0'' @ sig) = replicate k CHR ''0''"
    by (induction k) simp_all
  then show ?thesis using assms(1) by simp
qed

lemma subscriptOf_digit: "k < 10 \<Longrightarrow> subscriptOf (digit k) = [Sub k]"
  using below_ten [of k] by (auto simp: subscriptOf_def digit_def subscripts_def)

lemma zeroCount_small: "k < 10 \<Longrightarrow> concat (map subscriptOf (decimal k)) = [Sub k]"
  by (simp add: decimal_digit subscriptOf_digit)

lemma compressed:
  assumes "0 < n" and "length (decimal n) < 20"
    and "p \<noteq> Fin 0" and "\<not> jge p (Fin (1 / 10000))"
    and "toFixed nts p 20 =
           Inr (''0.'' @ replicate (20 - length (decimal n)) CHR ''0'' @ decimal n)"
  shows "formatSmallPrice nts p q =
           Inr (map Ch ''0.0'' @ [Sub (min (20 - length (decimal n)) 9)]
                @ map Ch (take 4 (drop (20 - length (decimal n) - 9) (significant n))))"
proof -
  let ?k = "20 - length (decimal n)"
  let ?pre = "''0.'' @ replicate ?k CHR ''0''"
  note sg = significant_props [OF assms(1)]
  have k: "0 < ?k" using assms(2) by simp
  have strip: "stripTrailingZeros (?pre @ decimal n) = ?pre @ significant n"
    using assms(1) by (rule stripTrailingZeros_decimal)
  have m: "matchLeadingZeros (?pre @ significant n) = Some ?pre"
    using matchLeadingZeros_zeros [OF k sg(1) sg(2)] by simp
  have len: "length ?pre - 2 = ?k" by simp
  have d1: "drop (length ?pre) (?pre @ significant n) = significant n"
    by (simp only: append_eq_conv_conj drop_append) simp
  have d2: "drop (length ?pre + j) (?pre @ significant n) = drop j (significant n)" for j
    by (metis d1 add.commute drop_drop)
  have fs: "formatSmallPrice nts p q =
      (if ?k > 9
       then Inr (map Ch ''0.0'' @ concat (map subscriptOf (decimal (min ?k 9)))
                 @ map Ch (take 4 (drop (?k - min ?k 9) (significant n))))
       else Inr (map Ch ''0.0'' @ concat (map subscriptOf (decimal ?k))
                 @ map Ch (take 4 (significant n))))"
    unfolding formatSmallPrice_def
    using assms(3,4) 
    by (simp only: assms(5) if_False sum.case Let_def append_assoc [symmetric] strip m option.case len d1 d2)
  show ?thesis
  proof (cases "?k > 9")
    case True
    then have "min ?k 9 = 9" by simp
    with True show ?thesis
      unfolding fs by (simp add: zeroCount_small)
  next
    case False
    then have "min ?k 9 = ?k" "?k - 9 = 0" "?k < 10" by simp_all
    with False show ?thesis
      unfolding fs by (simp add: zeroCount_small)
  qed
qed


lemma digitsValue_zeros: "digitsValue (replicate j CHR ''0'' @ s) = digitsValue s"
proof (induction j)
  case 0
  then show ?case by simp
next
  case (Suc j)
  have "digitsValue (CHR ''0'' # t) = digitsValue t" for t
    by (simp add: digitsValue_def digitValue_def)
  with Suc show ?case by simp
qed

lemma isDigit_zero: "isDigit CHR ''0''"
  by (simp add: isDigit_def)

lemma toFixed_Inr: "f \<le> 100 \<Longrightarrow> \<exists>s. toFixed nts x f = Inr s"
  by (cases x) (auto simp: toFixed_def Let_def)

lemma nat_floor_less: "0 < b \<Longrightarrow> x < of_nat b \<Longrightarrow> nat \<lfloor>x :: rat\<rfloor> < b"
proof -
  assume b: "0 < b" and "x < of_nat b"
  then have "x < of_int (int b)" by simp
  then have "\<lfloor>x\<rfloor> < int b" by (simp only: floor_less_iff)
  with b show ?thesis by (cases "0 \<le> \<lfloor>x\<rfloor>") (simp_all add: nat_less_iff)
qed

lemma nat_floor_pos: "1 \<le> x \<Longrightarrow> 0 < nat \<lfloor>x :: rat\<rfloor>"
proof -
  assume "1 \<le> x"
  then have "of_int 1 \<le> x" by simp
  then have "1 \<le> \<lfloor>x\<rfloor>" by (simp only: le_floor_iff)
  then show ?thesis by linarith
qed

lemma toFixed_decimal:
  assumes "0 \<le> m" and "m < 10 ^ 21" and "0 < f" and "f \<le> 100"
    and "n = nat \<lfloor>m * 10 ^ f + 1 / 2\<rfloor>"
  shows "toFixed nts (Fin m) f =
      Inr (if length (decimal n) \<le> f
           then ''0.'' @ replicate (f - length (decimal n)) CHR ''0'' @ decimal n
           else take (length (decimal n) - f) (decimal n) @ ''.''
                @ drop (length (decimal n) - f) (decimal n))"
  unfolding assms(5) toFixed_digits [OF assms(1-4)] Let_def ..

lemma fixed4:
  assumes "1 / 10000 \<le> m" and "m < 10 ^ 21"
  shows "\<exists>ip fp. formatSmallPrice nts (Fin m) q = Inr (map Ch (ip @ ''.'' @ fp))
           \<and> ip \<noteq> [] \<and> length fp = 4 \<and> list_all isDigit (ip @ fp)
           \<and> digitsValue (ip @ fp) = nat \<lfloor>m * 10 ^ 4 + 1 / 2\<rfloor>"
proof -
  define n where "n = nat \<lfloor>m * 10 ^ 4 + 1 / 2\<rfloor>"
  define d where "d = decimal n"
  have m0: "0 \<le> m" "m \<noteq> 0" using assms(1) by auto
  have fs: "formatSmallPrice nts (Fin m) q = map_sum id (map Ch) (toFixed nts (Fin m) 4)"
    using assms(1) m0 by (simp add: formatSmallPrice_def)
  have tf: "toFixed nts (Fin m) 4 =
      Inr (if length d \<le> 4 then ''0.'' @ replicate (4 - length d) CHR ''0'' @ d
           else take (length d - 4) d @ ''.'' @ drop (length d - 4) d)"
    unfolding d_def by (rule toFixed_decimal [OF m0(1) assms(2) _ _ n_def]) simp_all
  have dg: "list_all isDigit d" unfolding d_def by (rule decimal_isDigit)
  have dv: "digitsValue d = n" unfolding d_def by (rule digitsValue_decimal)
  have "\<exists>ip fp. formatSmallPrice nts (Fin m) q = Inr (map Ch (ip @ ''.'' @ fp))
           \<and> ip \<noteq> [] \<and> length fp = 4 \<and> list_all isDigit (ip @ fp)
           \<and> digitsValue (ip @ fp) = n"
  proof (cases "length d \<le> 4")
    case True
    let ?fp = "replicate (4 - length d) CHR ''0'' @ d"
    have "formatSmallPrice nts (Fin m) q = Inr (map Ch (''0'' @ ''.'' @ ?fp))"
      using True by (simp add: fs tf)
    moreover have "length ?fp = 4" using True by simp
    moreover have "list_all isDigit (''0'' @ ?fp)"
      using dg by (auto simp: isDigit_zero list_all_iff)
    moreover have "digitsValue (''0'' @ ?fp) = n"
      using digitsValue_zeros [of "Suc (4 - length d)" d] dv by simp
    ultimately show ?thesis by blast
  next
    case False
    let ?ip = "take (length d - 4) d"
    let ?fp = "drop (length d - 4) d"
    have "formatSmallPrice nts (Fin m) q = Inr (map Ch (?ip @ ''.'' @ ?fp))"
      using False by (simp add: fs tf)
    moreover have "?ip \<noteq> []" using False by auto
    moreover have "length ?fp = 4" using False by simp
    moreover have "list_all isDigit (?ip @ ?fp)" using dg by simp
    moreover have "digitsValue (?ip @ ?fp) = n" using dv by simp
    ultimately show ?thesis by blast
  qed
  then show ?thesis unfolding n_def .
qed

lemma huge:
  assumes "10 ^ 21 \<le> m"
  shows "formatSmallPrice nts (Fin m) q = Inr (map Ch (nts (Fin m)))"
proof -
  have "(1::rat) / 10000 \<le> 10 ^ 21" by simp
  with assms have "1 / 10000 \<le> m" "0 < m" by simp_all
  with assms show ?thesis
    by (simp add: formatSmallPrice_def toFixed_def)
qed

lemma stripTrailingZeros_zero:
  "stripTrailingZeros (''0.'' @ replicate j CHR ''0'' @ ''0'') = ''0''"
proof -
  have "dropWhile (\<lambda>c. c = CHR ''0'') (replicate (Suc j) CHR ''0'' @ ''.0'') = ''.0''"
    by (induction j) simp_all
  then have "rev (dropWhile (\<lambda>c. c = CHR ''0'') (rev (''0.'' @ replicate j CHR ''0'' @ ''0''))) = ''0.''"
    by simp
  then show ?thesis
    unfolding stripTrailingZeros_def Let_def by simp
qed

lemma tiny:
  assumes "0 < m" and "m < 1 / (2 * 10 ^ 20)"
  shows "formatSmallPrice nts (Fin m) q = Inr (map Ch (nts (Fin m)))"
proof -
  define n where "n = nat \<lfloor>m * 10 ^ 20 + 1 / 2\<rfloor>"
  have "m * 10 ^ 20 < 1 / 2" using assms(2) by (simp add: field_simps)
  then have "m * 10 ^ 20 + 1 / 2 < of_nat 1" by simp
  then have "n < 1" unfolding n_def by (rule nat_floor_less [rotated]) simp
  then have n: "n = 0" by simp
  have small: "0 \<le> m" "m < 10 ^ 21" "\<not> 1 / 10000 \<le> m"
    using assms by (simp_all add: field_simps)
  have "toFixed nts (Fin m) 20 = Inr (''0.'' @ replicate 19 CHR ''0'' @ ''0'')"
    unfolding toFixed_decimal [OF small(1,2) _ _ n_def, of nts, simplified]
    by (simp add: n decimal_0)
  then show ?thesis
    using assms(1) small(3)
    by (simp only: formatSmallPrice_def stripTrailingZeros_zero Let_def sum.case)
       simp
qed

lemma small:
  assumes "1 / (2 * 10 ^ 20) \<le> m" and "m < 1 / 10000"
    and "n = nat \<lfloor>m * 10 ^ 20 + 1 / 2\<rfloor>"
  shows "0 < n"
    and "length (decimal n) \<le> 17"
    and "toFixed nts (Fin m) 20 =
           Inr (''0.'' @ replicate (20 - length (decimal n)) CHR ''0'' @ decimal n)"
proof -
  have "1 / 2 \<le> m * 10 ^ 20" using assms(1) by (simp add: field_simps)
  then have "1 \<le> m * 10 ^ 20 + 1 / 2" by simp
  then show pos: "0 < n" unfolding assms(3) by (rule nat_floor_pos)
  have "m * 10 ^ 20 < 10 ^ 16" using assms(2) by (simp add: field_simps)
  then have "m * 10 ^ 20 + 1 / 2 < of_nat (10 ^ 17)" by simp
  then have "n < 10 ^ 17" unfolding assms(3) by (rule nat_floor_less [rotated]) simp
  then show len: "length (decimal n) \<le> 17"
    by (simp add: decimal_length)
  have m: "0 \<le> m" "m < 10 ^ 21" using assms by (simp_all add: field_simps)
  show "toFixed nts (Fin m) 20 =
           Inr (''0.'' @ replicate (20 - length (decimal n)) CHR ''0'' @ decimal n)"
    unfolding toFixed_decimal [OF m _ _ assms(3), of nts, simplified]
    using len by simp
qed


lemma compressedForm_digits:
  assumes "k \<le> 9" and "length ds \<le> 4" and "list_all isDigit ds"
  shows "compressedForm (map Ch ''0.0'' @ [Sub k] @ map Ch ds)"
  using assms by (simp add: compressedForm_def list_all_iff)

lemma small_compressed:
  assumes "1 / (2 * 10 ^ 20) \<le> m" and "m < 1 / 10000"
    and "n = nat \<lfloor>m * 10 ^ 20 + 1 / 2\<rfloor>" and "k = 20 - length (decimal n)"
  shows "toFixed nts (Fin m) 20 = Inr (''0.'' @ replicate k CHR ''0'' @ decimal n)"
    and "3 \<le> k"
    and "formatSmallPrice nts (Fin m) q =
           Inr (map Ch ''0.0'' @ [Sub (min k 9)] @ map Ch (take 4 (drop (k - 9) (significant n))))"
    and "compressedForm
           (map Ch ''0.0'' @ [Sub (min k 9)] @ map Ch (take 4 (drop (k - 9) (significant n))))"
proof -
  note sm = small [OF assms(1-3)]
  show "toFixed nts (Fin m) 20 = Inr (''0.'' @ replicate k CHR ''0'' @ decimal n)"
    unfolding assms(4) by (rule sm(3))
  show "3 \<le> k" using sm(2) unfolding assms(4) by simp
  have "0 < m"
  proof -
    have "(0::rat) < 1 / (2 * 10 ^ 20)" by simp
    then show ?thesis using assms(1) by (rule less_le_trans)
  qed
  then have p: "Fin m \<noteq> Fin 0" "\<not> jge (Fin m) (Fin (1 / 10000))"
    using assms(2) by simp_all
  have l: "length (decimal n) < 20" using sm(2) by simp
  show "formatSmallPrice nts (Fin m) q =
           Inr (map Ch ''0.0'' @ [Sub (min k 9)] @ map Ch (take 4 (drop (k - 9) (significant n))))"
    unfolding assms(4) by (rule compressed [OF sm(1) l p sm(3)])
  have "list_all isDigit (significant n)"
    using sm(1) by (rule significant_props(4))
  then have "list_all isDigit (take 4 (drop (k - 9) (significant n)))"
    by (auto simp: list_all_iff dest!: in_set_takeD in_set_dropD)
  then show "compressedForm
           (map Ch ''0.0'' @ [Sub (min k 9)] @ map Ch (take 4 (drop (k - 9) (significant n))))"
    by (intro compressedForm_digits) simp_all
qed

theorem small_value_format_counterexample:
  "formatSmallPrice exampleNumToString (Fin (1 / 10 ^ 25)) (map Ch ''$'') = Inr (map Ch ''1e-25'')
   \<and> \<not> compressedForm (map Ch ''1e-25'')
   \<and> formatSmallPrice exampleNumToString (Fin (10 ^ 21)) (map Ch ''$'') = Inr (map Ch ''1e+21'')"
proof -
  have "formatSmallPrice exampleNumToString (Fin (1 / 10 ^ 25)) (map Ch ''$'') =
          Inr (map Ch (exampleNumToString (Fin (1 / 10 ^ 25))))"
    by (rule tiny) simp_all
  moreover have "formatSmallPrice exampleNumToString (Fin (10 ^ 21)) (map Ch ''$'') =
          Inr (map Ch (exampleNumToString (Fin (10 ^ 21))))"
    by (rule huge) simp
  ultimately show ?thesis
    by (simp add: exampleNumToString_def compressedForm_def)
qed

text \<open>
  Claim C6, as the code has it.  For a magnitude \<open>m \<ge> 0\<close> the formatter returns: the
  quote symbol followed by \<^verbatim>\<open>0.00\<close> when \<open>m\<close> is zero; from \<open>10\<^sup>-\<^sup>4\<close> up to \<open>10\<^sup>2\<^sup>1\<close> the
  rendering with exactly 4 decimals of the nearest multiple of \<open>10\<^sup>-\<^sup>4\<close>, and from
  \<open>10\<^sup>2\<^sup>1\<close> on the runtime's plain text of the number; below \<open>10\<^sup>-\<^sup>4\<close>, when \<open>m\<close> rounded
  to 20 decimals is not zero, a compressed form: the prefix \<^verbatim>\<open>0.0\<close>, the subscript of
  the number \<open>k\<close> of zeros after the point in the 20-decimal rendering, clamped to 9, and
  up to 4 digits, which are the first significant digits when \<open>k\<close> is at most 9 (which
  digits follow the subscript 9 when \<open>k\<close> is more than 9 is not stated); and when \<open>m\<close>
  rounds to zero at 20 decimals (\<open>m\<close> below \<^verbatim>\<open>5e-21\<close>), not a compressed form but the
  runtime's plain text of the number.
\<close>

theorem small_value_format:
  assumes "0 \<le> m"
  shows "(m = 0 \<longrightarrow> formatSmallPrice numToString (Fin m) quoteSymbol = Inr (quoteSymbol @ map Ch ''0.00''))
       \<and> (1 / 10000 \<le> m \<and> m < 10 ^ 21 \<longrightarrow>
            (\<exists>ip fp. formatSmallPrice numToString (Fin m) quoteSymbol = Inr (map Ch (ip @ ''.'' @ fp))
               \<and> ip \<noteq> [] \<and> length fp = 4 \<and> list_all isDigit (ip @ fp)
               \<and> digitsValue (ip @ fp) = nat \<lfloor>m * 10 ^ 4 + 1 / 2\<rfloor>))
       \<and> (10 ^ 21 \<le> m \<longrightarrow>
            formatSmallPrice numToString (Fin m) quoteSymbol = Inr (map Ch (numToString (Fin m))))
       \<and> (1 / (2 * 10 ^ 20) \<le> m \<and> m < 1 / 10000 \<longrightarrow>
            (\<forall>n k. n = nat \<lfloor>m * 10 ^ 20 + 1 / 2\<rfloor> \<and> k = 20 - length (decimal n) \<longrightarrow>
               toFixed numToString (Fin m) 20 = Inr (''0.'' @ replicate k CHR ''0'' @ decimal n)
               \<and> 0 < n \<and> 3 \<le> k
               \<and> (k \<le> 9 \<longrightarrow>
                    formatSmallPrice numToString (Fin m) quoteSymbol =
                      Inr (map Ch ''0.0'' @ [Sub k] @ map Ch (take 4 (significant n))))
               \<and> (9 < k \<longrightarrow>
                    (\<exists>ds. formatSmallPrice numToString (Fin m) quoteSymbol =
                             Inr (map Ch ''0.0'' @ [Sub 9] @ map Ch ds)
                          \<and> length ds \<le> 4 \<and> list_all isDigit ds))
               \<and> (\<exists>r. formatSmallPrice numToString (Fin m) quoteSymbol = Inr r
                        \<and> compressedForm r)))
       \<and> (0 < m \<and> m < 1 / (2 * 10 ^ 20) \<longrightarrow>
            formatSmallPrice numToString (Fin m) quoteSymbol = Inr (map Ch (numToString (Fin m))))"
proof (intro conjI impI allI)
  show "formatSmallPrice numToString (Fin m) quoteSymbol = Inr (quoteSymbol @ map Ch ''0.00'')"
    if "m = 0"
    using that by (simp add: formatSmallPrice_def)
  show "\<exists>ip fp. formatSmallPrice numToString (Fin m) quoteSymbol = Inr (map Ch (ip @ ''.'' @ fp))
               \<and> ip \<noteq> [] \<and> length fp = 4 \<and> list_all isDigit (ip @ fp)
               \<and> digitsValue (ip @ fp) = nat \<lfloor>m * 10 ^ 4 + 1 / 2\<rfloor>"
    if "1 / 10000 \<le> m \<and> m < 10 ^ 21"
    using that by (intro fixed4) simp_all
  show "formatSmallPrice numToString (Fin m) quoteSymbol = Inr (map Ch (numToString (Fin m)))"
    if "10 ^ 21 \<le> m"
    using that by (rule huge)
  show "formatSmallPrice numToString (Fin m) quoteSymbol = Inr (map Ch (numToString (Fin m)))"
    if "0 < m \<and> m < 1 / (2 * 10 ^ 20)"
    using that by (intro tiny) simp_all
next
  fix n k
  assume r: "1 / (2 * 10 ^ 20) \<le> m \<and> m < 1 / 10000"
    and nk: "n = nat \<lfloor>m * 10 ^ 20 + 1 / 2\<rfloor> \<and> k = 20 - length (decimal n)"
  from r have r1: "1 / (2 * 10 ^ 20) \<le> m" and r2: "m < 1 / 10000" by simp_all
  from nk have n: "n = nat \<lfloor>m * 10 ^ 20 + 1 / 2\<rfloor>" and k: "k = 20 - length (decimal n)"
    by simp_all
  note c = small_compressed [OF r1 r2 n k]
  have pos: "0 < n" by (rule small(1) [OF r1 r2 n])
  show "toFixed numToString (Fin m) 20 = Inr (''0.'' @ replicate k CHR ''0'' @ decimal n)"
    by (rule c(1))
  show "0 < n" by (rule pos)
  show "3 \<le> k" by (rule c(2))
  show "formatSmallPrice numToString (Fin m) quoteSymbol =
          Inr (map Ch ''0.0'' @ [Sub k] @ map Ch (take 4 (significant n)))"
    if "k \<le> 9"
  proof -
    from that have "min k 9 = k" "k - 9 = 0" by simp_all
    with c(3) [of numToString quoteSymbol] show ?thesis by simp
  qed
  show "\<exists>ds. formatSmallPrice numToString (Fin m) quoteSymbol =
                Inr (map Ch ''0.0'' @ [Sub 9] @ map Ch ds)
             \<and> length ds \<le> 4 \<and> list_all isDigit ds"
    if "9 < k"
  proof -
    let ?ds = "take 4 (drop (k - 9) (significant n))"
    from that have "min k 9 = 9" by simp
    with c(3) [of numToString quoteSymbol]
    have "formatSmallPrice numToString (Fin m) quoteSymbol =
            Inr (map Ch ''0.0'' @ [Sub 9] @ map Ch ?ds)"
      by simp
    moreover have "length ?ds \<le> 4" by simp
    moreover have "list_all isDigit ?ds"
      using significant_props(4) [OF pos]
      by (auto simp: list_all_iff dest!: in_set_takeD in_set_dropD)
    ultimately show ?thesis by blast
  qed
  show "\<exists>r. formatSmallPrice numToString (Fin m) quoteSymbol = Inr r \<and> compressedForm r"
    using c(3) [of numToString quoteSymbol] c(4) by blast
qed

text \<open>
  Claim C7.  The formatter returns a text for every number, \<open>NaN\<close>, the infinities and
  negative numbers included: the only exception its calls can raise, the RangeError of
  \<^verbatim>\<open>toFixed\<close>, needs more than 100 digits, and the formatter asks for 4 and 20.  It
  reads nothing but its two arguments, so its result is a function of them.
\<close>

theorem formatter_total:
  "\<exists>s. formatSmallPrice numToString p quoteSymbol = Inr s"
proof -
  obtain s4 where s4: "toFixed numToString p 4 = Inr s4"
    using toFixed_Inr [of 4 numToString p] by auto
  obtain s20 where s20: "toFixed numToString p 20 = Inr s20"
    using toFixed_Inr [of 20 numToString p] by auto
  show ?thesis
    by (simp add: formatSmallPrice_def s4 s20 Let_def split: option.splits)
qed

lemma example_nearest: "nat \<lfloor>(575 / 10 ^ 7 :: rat) * 10 ^ 20 + 1 / 2\<rfloor> = 5750000000000000"
proof -
  have "\<lfloor>(575 / 10 ^ 7 :: rat) * 10 ^ 20 + 1 / 2\<rfloor> = 5750000000000000"
    by (rule floor_unique) simp_all
  then show ?thesis by simp
qed

lemma example_decimal: "decimal 5750000000000000 = ''5750000000000000''"
  by (simp add: decimal.simps digit_def)

lemma example_significant: "significant 5750000000000000 = ''575''"
  by (simp add: significant_def example_decimal)

theorem small_value_format_witness:
  "formatSmallPrice exampleNumToString (Fin (575 / 10 ^ 7)) (map Ch ''$'') =
     Inr [Ch CHR ''0'', Ch CHR ''.'', Ch CHR ''0'', Sub 4, Ch CHR ''5'', Ch CHR ''7'', Ch CHR ''5'']"
proof -
  have m: "(0::rat) \<le> 575 / 10 ^ 7" by simp
  have r: "1 / (2 * 10 ^ 20) \<le> (575 / 10 ^ 7 :: rat) \<and> (575 / 10 ^ 7 :: rat) < 1 / 10000"
    by simp
  have nk: "5750000000000000 = nat \<lfloor>(575 / 10 ^ 7 :: rat) * 10 ^ 20 + 1 / 2\<rfloor>
            \<and> 4 = 20 - length (decimal 5750000000000000)"
    by (simp only: example_nearest example_decimal) simp
  from small_value_format [OF m, of exampleNumToString "map Ch ''$''"]
  have "\<forall>n k. n = nat \<lfloor>(575 / 10 ^ 7 :: rat) * 10 ^ 20 + 1 / 2\<rfloor> \<and> k = 20 - length (decimal n) \<longrightarrow>
          (k \<le> 9 \<longrightarrow>
            formatSmallPrice exampleNumToString (Fin (575 / 10 ^ 7)) (map Ch ''$'') =
              Inr (map Ch ''0.0'' @ [Sub k] @ map Ch (take 4 (significant n))))"
    using r by blast
  then have "(4::nat) \<le> 9 \<longrightarrow>
          formatSmallPrice exampleNumToString (Fin (575 / 10 ^ 7)) (map Ch ''$'') =
            Inr (map Ch ''0.0'' @ [Sub 4] @ map Ch (take 4 (significant 5750000000000000)))"
    using nk by blast
  then show ?thesis
    by (simp add: example_significant)
qed

end
